theory Spec2Isabelle
  imports Main "HOL-Library.Word"
begin

section \<open>Values shared by the NATS tracing wrappers\<close>

text \<open>
  A Go \<open>error\<close> is identified with its message (the result of \<open>err.Error()\<close>); a nil
  error is \<open>None\<close> of \<open>err option\<close>. A byte slice is a list of 8-bit words. A
  \<open>nats.Header\<close> is a Go \<open>map[string][]string\<close>: a partial map, and a nil header
  is \<open>None\<close> of \<open>header option\<close>.
\<close>

type_synonym err = string
type_synonym bytes = "8 word list"
type_synonym header = "string \<rightharpoonup> string list"
type_synonym publish_opt = string
type_synonym fetch_opt = string

text \<open>\<open>nats.Msg\<close>: the outgoing message, mutated in place by the publisher.\<close>

record nats_msg =
  Subject :: string
  Data :: bytes
  Header :: "header option"

text \<open>\<open>jetstream.MsgMetadata\<close> and the inbound \<open>jetstream.Msg\<close> interface, seen through
  the methods the wrappers call: \<open>Subject()\<close>, \<open>Data()\<close>, \<open>Headers()\<close>, \<open>Metadata()\<close>.\<close>

record msg_metadata =
  Stream :: string
  Consumer :: string

record js_msg =
  msg_Subject :: string
  msg_Data :: bytes
  msg_Headers :: "header option"
  msg_Metadata :: "msg_metadata option \<times> err option"

section \<open>Attribute builder (nats/attributes.go)\<close>

datatype attr_value = StringValue string | IntValue int

type_synonym key_value = "string \<times> attr_value"

definition messagingSystem :: string where
  "messagingSystem = ''nats''"

definition attrMessagingSystem :: string where
  "attrMessagingSystem = ''messaging.system''"

definition attrMessagingOperationName :: string where
  "attrMessagingOperationName = ''messaging.operation.name''"

definition attrMessagingOperationType :: string where
  "attrMessagingOperationType = ''messaging.operation.type''"

definition attrMessagingDestinationName :: string where
  "attrMessagingDestinationName = ''messaging.destination.name''"

definition attrMessagingConsumerGroup :: string where
  "attrMessagingConsumerGroup = ''messaging.consumer.group.name''"

definition attrMessagingMessageID :: string where
  "attrMessagingMessageID = ''messaging.message.id''"

definition attrMessagingMessageBodySize :: string where
  "attrMessagingMessageBodySize = ''messaging.message.body.size''"

definition attrNATSStream :: string where
  "attrNATSStream = ''nats.stream''"

definition opTypePublish :: string where
  "opTypePublish = ''publish''"

definition opTypeReceive :: string where
  "opTypeReceive = ''receive''"

definition opTypeProcess :: string where
  "opTypeProcess = ''process''"

definition opTypeSend :: string where
  "opTypeSend = ''send''"

definition publishAttributes :: "string \<Rightarrow> string \<Rightarrow> int \<Rightarrow> key_value list" where
  "publishAttributes subject msgID bodySize =
     (let attrs = [];
          attrs = attrs @
            [(attrMessagingSystem, StringValue messagingSystem),
             (attrMessagingOperationName, StringValue opTypePublish),
             (attrMessagingOperationType, StringValue opTypeSend),
             (attrMessagingDestinationName, StringValue subject)];
          attrs = (if msgID \<noteq> '''' then attrs @ [(attrMessagingMessageID, StringValue msgID)]
                   else attrs);
          attrs = (if bodySize > 0 then attrs @ [(attrMessagingMessageBodySize, IntValue bodySize)]
                   else attrs)
      in attrs)"

definition receiveAttributes :: "string \<Rightarrow> string \<Rightarrow> int \<Rightarrow> key_value list" where
  "receiveAttributes stream consumerName bodySize =
     (let attrs = [];
          attrs = attrs @
            [(attrMessagingSystem, StringValue messagingSystem),
             (attrMessagingOperationName, StringValue opTypeReceive),
             (attrMessagingOperationType, StringValue opTypeReceive),
             (attrNATSStream, StringValue stream)];
          attrs = (if consumerName \<noteq> ''''
                   then attrs @ [(attrMessagingConsumerGroup, StringValue consumerName)]
                   else attrs);
          attrs = (if bodySize > 0 then attrs @ [(attrMessagingMessageBodySize, IntValue bodySize)]
                   else attrs)
      in attrs)"

definition processAttributes ::
  "string \<Rightarrow> string \<Rightarrow> string \<Rightarrow> string \<Rightarrow> int \<Rightarrow> key_value list" where
  "processAttributes stream consumerName subject msgID bodySize =
     (let attrs = [];
          attrs = attrs @
            [(attrMessagingSystem, StringValue messagingSystem),
             (attrMessagingOperationName, StringValue opTypeProcess),
             (attrMessagingOperationType, StringValue opTypeProcess),
             (attrNATSStream, StringValue stream)];
          attrs = (if subject \<noteq> ''''
                   then attrs @ [(attrMessagingDestinationName, StringValue subject)]
                   else attrs);
          attrs = (if consumerName \<noteq> ''''
                   then attrs @ [(attrMessagingConsumerGroup, StringValue consumerName)]
                   else attrs);
          attrs = (if msgID \<noteq> '''' then attrs @ [(attrMessagingMessageID, StringValue msgID)]
                   else attrs);
          attrs = (if bodySize > 0 then attrs @ [(attrMessagingMessageBodySize, IntValue bodySize)]
                   else attrs)
      in attrs)"

section \<open>The trace API the wrappers call\<close>

text \<open>
  The OpenTelemetry trace API is an external collaborator. It is modelled as a recording
  tracer, the way the in-memory exporter of the repository's tests observes it: the world
  holds every span started so far, in the order of the \<open>Start\<close> calls, and a span
  handle is the index of its span. A span context carries the trace id and the span id as
  their hexadecimal renderings. \<open>context.Background()\<close> is the context without a span.
\<close>

record span_context =
  TraceID :: string
  SpanID :: string
  Remote :: bool

record go_context =
  ctx_span :: "span_context option"
  ctx_values :: "(string \<times> string) list"

definition Background :: go_context where
  "Background = \<lparr>ctx_span = None, ctx_values = []\<rparr>"

definition sc_IsValid :: "span_context \<Rightarrow> bool" where
  "sc_IsValid sc =
     (length (TraceID sc) = 32 \<and> length (SpanID sc) = 16
      \<and> \<not> list_all (\<lambda>c. c = CHR ''0'') (TraceID sc)
      \<and> \<not> list_all (\<lambda>c. c = CHR ''0'') (SpanID sc))"

datatype span_kind =
  SpanKindInternal | SpanKindServer | SpanKindClient | SpanKindProducer | SpanKindConsumer

datatype status_code = StatusUnset | StatusError | StatusOk

record span =
  sp_name :: string
  sp_kind :: span_kind
  sp_scope :: string
  sp_context :: span_context
  sp_parent :: "span_context option"
  sp_attrs :: "key_value list"
  sp_events :: "string list"
  sp_status :: "status_code \<times> string"
  sp_ended :: nat

text \<open>
  \<open>w_spans\<close>: the spans started so far. \<open>w_newids\<close>: the id generator of the SDK (the
  fresh trace id and span id offered to the n-th span). \<open>w_injects\<close>: how many times a
  propagator's \<open>Inject\<close> has been called.
\<close>

record world =
  w_spans :: "span list"
  w_newids :: "nat \<Rightarrow> string \<times> string"
  w_injects :: nat

record tracer =
  tr_provider :: nat
  tr_name :: string

definition provider_Tracer :: "nat \<Rightarrow> string \<Rightarrow> tracer" where
  "provider_Tracer tp name = \<lparr>tr_provider = tp, tr_name = name\<rparr>"

text \<open>
  \<open>tracer.Start(ctx, name, WithSpanKind(kind), WithAttributes(attrs...))\<close>: the new span's
  parent is the span context found in \<open>ctx\<close>; it joins the parent's trace when that is
  valid and starts a new trace otherwise. Returns the context holding the new span, the
  span's handle and the world with the span recorded.
\<close>

definition tracer_Start ::
  "tracer \<Rightarrow> go_context \<Rightarrow> string \<Rightarrow> span_kind \<Rightarrow> key_value list \<Rightarrow> world
     \<Rightarrow> go_context \<times> nat \<times> world" where
  "tracer_Start t ctx name kind attrs w =
     (let n = length (w_spans w);
          fresh = w_newids w n;
          parent = ctx_span ctx;
          tid = (case parent of
                   None \<Rightarrow> fst fresh
                 | Some p \<Rightarrow> if sc_IsValid p then TraceID p else fst fresh);
          sc = \<lparr>TraceID = tid, SpanID = snd fresh, Remote = False\<rparr>;
          sp = \<lparr>sp_name = name, sp_kind = kind, sp_scope = tr_name t, sp_context = sc,
                sp_parent = parent, sp_attrs = attrs, sp_events = [],
                sp_status = (StatusUnset, ''''), sp_ended = 0\<rparr>
      in (ctx\<lparr>ctx_span := Some sc\<rparr>, n, w\<lparr>w_spans := w_spans w @ [sp]\<rparr>))"

definition span_update :: "nat \<Rightarrow> (span \<Rightarrow> span) \<Rightarrow> world \<Rightarrow> world" where
  "span_update i f w =
     (if i < length (w_spans w) then w\<lparr>w_spans := (w_spans w)[i := f (w_spans w ! i)]\<rparr>
      else w)"

definition span_RecordError :: "nat \<Rightarrow> err \<Rightarrow> world \<Rightarrow> world" where
  "span_RecordError i e = span_update i (\<lambda>s. s\<lparr>sp_events := sp_events s @ [e]\<rparr>)"

definition span_SetStatus :: "nat \<Rightarrow> status_code \<Rightarrow> string \<Rightarrow> world \<Rightarrow> world" where
  "span_SetStatus i code description = span_update i (\<lambda>s. s\<lparr>sp_status := (code, description)\<rparr>)"

text \<open>\<open>span.SetAttributes\<close>: a key set again replaces the value the span held for it.\<close>

definition span_SetAttributes :: "nat \<Rightarrow> key_value list \<Rightarrow> world \<Rightarrow> world" where
  "span_SetAttributes i attrs =
     span_update i
       (\<lambda>s. s\<lparr>sp_attrs := filter (\<lambda>kv. fst kv \<notin> fst ` set attrs) (sp_attrs s) @ attrs\<rparr>)"

definition span_End :: "nat \<Rightarrow> world \<Rightarrow> world" where
  "span_End i = span_update i (\<lambda>s. s\<lparr>sp_ended := Suc (sp_ended s)\<rparr>)"

section \<open>Header carrier adapter\<close>

text \<open>
  \<open>nats.Header.Values\<close> and \<open>nats.Header.Set\<close> of the client library: a case-sensitive
  lookup (nil for an absent key) and the replacement of a key's values by one value.
\<close>

definition Header_Values :: "header \<Rightarrow> string \<Rightarrow> string list" where
  "Header_Values h key = (case h key of None \<Rightarrow> [] | Some vals \<Rightarrow> vals)"

definition Header_Set :: "header \<Rightarrow> string \<Rightarrow> string \<Rightarrow> header" where
  "Header_Set h key v = h(key \<mapsto> [v])"

definition headerCarrier_Get :: "header \<Rightarrow> string \<Rightarrow> string" where
  "headerCarrier_Get c key =
     (let vals = Header_Values c key in if length vals > 0 then vals ! 0 else '''')"

definition headerCarrier_Set :: "header \<Rightarrow> string \<Rightarrow> string \<Rightarrow> header" where
  "headerCarrier_Set c key v = Header_Set c key v"

definition headerCarrier_Keys :: "header \<Rightarrow> string set" where
  "headerCarrier_Keys c = dom c"

text \<open>
  A \<open>propagation.TextMapCarrier\<close> as an extractor sees it (\<open>Get\<close> and \<open>Keys\<close>), and a
  \<open>propagation.TextMapPropagator\<close>: \<open>Inject\<close> is given by the \<open>Set\<close> calls it makes on
  the carrier, in order; \<open>Extract\<close> reads the carrier and returns the new context.
\<close>

record carrier =
  car_Get :: "string \<Rightarrow> string"
  car_Keys :: "string set"

record propagator =
  prop_Inject :: "go_context \<Rightarrow> (string \<times> string) list"
  prop_Extract :: "go_context \<Rightarrow> carrier \<Rightarrow> go_context"

definition headerCarrier :: "header \<Rightarrow> carrier" where
  "headerCarrier h = \<lparr>car_Get = headerCarrier_Get h, car_Keys = headerCarrier_Keys h\<rparr>"

fun carrier_sets :: "(string \<times> string) list \<Rightarrow> header \<Rightarrow> header" where
  "carrier_sets [] h = h"
| "carrier_sets ((k, v) # kvs) h = carrier_sets kvs (headerCarrier_Set h k v)"

text \<open>\<open>prop.Inject(ctx, headerCarrier(h))\<close>: the header after the call, and the call counted.\<close>

definition Inject :: "propagator \<Rightarrow> go_context \<Rightarrow> header \<Rightarrow> world \<Rightarrow> header \<times> world" where
  "Inject p ctx h w = (carrier_sets (prop_Inject p ctx) h, w\<lparr>w_injects := Suc (w_injects w)\<rparr>)"

definition Extract :: "propagator \<Rightarrow> go_context \<Rightarrow> header \<Rightarrow> go_context" where
  "Extract p ctx h = prop_Extract p ctx (headerCarrier h)"

text \<open>
  The process-wide state read by the wrappers: \<open>otel.GetTracerProvider()\<close>,
  \<open>otel.GetTextMapPropagator()\<close> and the tracer of \<open>internal/tracker\<close> (nil until set).
\<close>

record globals =
  g_TracerProvider :: nat
  g_TextMapPropagator :: propagator
  g_trackerTracer :: "tracer option"

section \<open>Configuration options\<close>

definition instrumentationName :: string where
  "instrumentationName = ''otx/nats''"

record options =
  tracerName :: string
  opts_prop :: "propagator option"
  processSpans :: bool
  asyncSpans :: bool
  stream :: string

type_synonym Option = "options \<Rightarrow> options"

definition defaultOptions :: options where
  "defaultOptions =
     \<lparr>tracerName = instrumentationName, opts_prop = None, processSpans = True, asyncSpans = True,
      stream = ''''\<rparr>"

definition WithTracerName :: "string \<Rightarrow> Option" where
  "WithTracerName name = (\<lambda>os. os\<lparr>tracerName := name\<rparr>)"

definition WithPropagator :: "propagator option \<Rightarrow> Option" where
  "WithPropagator p = (\<lambda>os. os\<lparr>opts_prop := p\<rparr>)"

definition WithProcessSpans :: "bool \<Rightarrow> Option" where
  "WithProcessSpans enabled = (\<lambda>os. os\<lparr>processSpans := enabled\<rparr>)"

definition WithAsyncSpans :: "bool \<Rightarrow> Option" where
  "WithAsyncSpans enabled = (\<lambda>os. os\<lparr>asyncSpans := enabled\<rparr>)"

definition WithStream :: "string \<Rightarrow> Option" where
  "WithStream s = (\<lambda>os. os\<lparr>stream := s\<rparr>)"

fun applyOptions_loop :: "Option list \<Rightarrow> options \<Rightarrow> options" where
  "applyOptions_loop [] os = os"
| "applyOptions_loop (opt # opts) os = applyOptions_loop opts (opt os)"

definition applyOptions :: "Option list \<Rightarrow> options" where
  "applyOptions opts = applyOptions_loop opts defaultOptions"

definition getTracer :: "globals \<Rightarrow> nat option \<Rightarrow> options \<Rightarrow> tracer" where
  "getTracer g tp opts =
     (if tracerName opts \<noteq> instrumentationName then
        provider_Tracer (case tp of None \<Rightarrow> g_TracerProvider g | Some p \<Rightarrow> p) (tracerName opts)
      else case g_trackerTracer g of
        Some t \<Rightarrow> t
      | None \<Rightarrow>
          provider_Tracer (case tp of None \<Rightarrow> g_TracerProvider g | Some p \<Rightarrow> p) (tracerName opts))"

definition getPropagator :: "globals \<Rightarrow> options \<Rightarrow> propagator" where
  "getPropagator g opts =
     (case opts_prop opts of Some p \<Rightarrow> p | None \<Rightarrow> g_TextMapPropagator g)"

section \<open>Panics and blocking calls\<close>

text \<open>
  A Go call either returns, panics with a value, or (a pull on an exhausted source) never
  returns. \<open>fmt_v\<close> is the \<open>%v\<close> rendering of a panic value.
\<close>

datatype panic_value = PanicString string | PanicError err

datatype 'a outcome = Returns 'a | Panics panic_value | Blocks

fun fmt_v :: "panic_value \<Rightarrow> string" where
  "fmt_v (PanicString s) = s"
| "fmt_v (PanicError e) = e"

section \<open>Publisher (nats/publisher.go)\<close>

text \<open>
  The underlying JetStream client, through the three calls the publisher delegates to.
  Each returns Go's pair of a result (nil is \<open>None\<close>) and an error (nil is \<open>None\<close>).
\<close>

record pub_ack =
  ack_Stream :: string
  Sequence :: "64 word"

type_synonym pub_ack_future = nat

record jetstream =
  js_PublishMsg :: "go_context \<Rightarrow> nats_msg \<Rightarrow> publish_opt list \<Rightarrow> pub_ack option \<times> err option"
  js_PublishAsync :: "string \<Rightarrow> bytes \<Rightarrow> publish_opt list \<Rightarrow> pub_ack_future option \<times> err option"
  js_PublishMsgAsync :: "nats_msg \<Rightarrow> publish_opt list \<Rightarrow> pub_ack_future option \<times> err option"

record Publisher =
  p_js :: jetstream
  p_tracer :: tracer
  p_prop :: propagator
  p_opts :: options

text \<open>\<open>strconv.FormatUint(n, 10)\<close>.\<close>

function FormatUint :: "nat \<Rightarrow> string" where
  "FormatUint n =
     (if n < 10 then [''0123456789'' ! n]
      else FormatUint (n div 10) @ [''0123456789'' ! (n mod 10)])"
  by pat_completeness auto
termination
  by (relation "measure id") auto

definition NewPublisherWithProviders ::
  "globals \<Rightarrow> jetstream option \<Rightarrow> nat option \<Rightarrow> propagator option \<Rightarrow> Option list
     \<Rightarrow> Publisher outcome" where
  "NewPublisherWithProviders g js tp pr opts =
     (case js of
        None \<Rightarrow> Panics (PanicString ''otx/nats: JetStream must not be nil'')
      | Some j \<Rightarrow>
          (let os = applyOptions opts;
               os = (case pr of Some p \<Rightarrow> os\<lparr>opts_prop := Some p\<rparr> | None \<Rightarrow> os)
           in Returns \<lparr>p_js = j, p_tracer = getTracer g tp os, p_prop = getPropagator g os,
                       p_opts = os\<rparr>))"

definition NewPublisher :: "globals \<Rightarrow> jetstream option \<Rightarrow> Option list \<Rightarrow> Publisher outcome" where
  "NewPublisher g js opts = NewPublisherWithProviders g js None None opts"

text \<open>
  The error branch shared by every traced call: \<open>span.RecordError(err)\<close>,
  \<open>span.SetStatus(codes.Error, err.Error())\<close>, and then the span's \<open>End\<close> (deferred in
  the publisher, called in line in the consumer).
\<close>

definition record_error_and_end :: "nat \<Rightarrow> err \<Rightarrow> world \<Rightarrow> world" where
  "record_error_and_end sp e w =
     span_End sp (span_SetStatus sp StatusError e (span_RecordError sp e w))"

text \<open>
  \<open>Publish\<close>, up to the delegation: the producer span is started and the message is built
  with a freshly made header that receives the trace context. Returns the context and the
  message handed to the client, the span and the world.
\<close>

definition Publish_begin ::
  "Publisher \<Rightarrow> go_context \<Rightarrow> string \<Rightarrow> bytes \<Rightarrow> world
     \<Rightarrow> go_context \<times> nat \<times> nats_msg \<times> world" where
  "Publish_begin p ctx subject data w =
     (let spanName = opTypePublish @ '' '' @ subject;
          (ctx, sp, w) = tracer_Start (p_tracer p) ctx spanName SpanKindProducer
                           (publishAttributes subject '''' (int (length data))) w;
          (h, w) = Inject (p_prop p) ctx Map.empty w;
          msg = \<lparr>Subject = subject, Data = data, Header = Some h\<rparr>
      in (ctx, sp, msg, w))"

text \<open>The rest of \<open>Publish\<close> and of \<open>PublishMsg\<close>: the client's answer is recorded on the
  span, and the deferred \<open>span.End()\<close> runs on every return path.\<close>

definition publish_finish ::
  "string \<Rightarrow> nat \<Rightarrow> pub_ack option \<times> err option \<Rightarrow> world
     \<Rightarrow> (pub_ack option \<times> err option) \<times> world" where
  "publish_finish subject sp r w =
     (case snd r of
        Some e \<Rightarrow> ((None, Some e), record_error_and_end sp e w)
      | None \<Rightarrow>
          (case fst r of
             Some ack \<Rightarrow>
               ((Some ack, None),
                span_End sp
                  (span_SetAttributes sp
                     (publishAttributes subject (FormatUint (unat (Sequence ack))) 0) w))
           | None \<Rightarrow> ((None, None), span_End sp w)))"

definition Publish ::
  "Publisher \<Rightarrow> go_context \<Rightarrow> string \<Rightarrow> bytes \<Rightarrow> publish_opt list \<Rightarrow> world
     \<Rightarrow> (pub_ack option \<times> err option) \<times> world" where
  "Publish p ctx subject data opts w =
     (let (ctx, sp, msg, w) = Publish_begin p ctx subject data w
      in publish_finish subject sp (js_PublishMsg (p_js p) ctx msg opts) w)"

text \<open>
  \<open>PublishMsg\<close> works on the caller's message: a nil header is replaced by an empty one
  before the injection, and the message as it is after the call is returned as well.
\<close>

definition PublishMsg_begin ::
  "Publisher \<Rightarrow> go_context \<Rightarrow> nats_msg \<Rightarrow> world \<Rightarrow> go_context \<times> nat \<times> nats_msg \<times> world" where
  "PublishMsg_begin p ctx msg w =
     (let subject = Subject msg;
          spanName = opTypePublish @ '' '' @ subject;
          (ctx, sp, w) = tracer_Start (p_tracer p) ctx spanName SpanKindProducer
                           (publishAttributes subject '''' (int (length (Data msg)))) w;
          h = (case Header msg of None \<Rightarrow> Map.empty | Some h \<Rightarrow> h);
          (h, w) = Inject (p_prop p) ctx h w;
          msg = msg\<lparr>Header := Some h\<rparr>
      in (ctx, sp, msg, w))"

definition PublishMsg ::
  "Publisher \<Rightarrow> go_context \<Rightarrow> nats_msg \<Rightarrow> publish_opt list \<Rightarrow> world
     \<Rightarrow> (pub_ack option \<times> err option) \<times> nats_msg \<times> world" where
  "PublishMsg p ctx msg opts w =
     (let (ctx, sp, msg, w) = PublishMsg_begin p ctx msg w;
          (r, w) = publish_finish (Subject msg) sp (js_PublishMsg (p_js p) ctx msg opts) w
      in (r, msg, w))"

text \<open>The asynchronous calls, once past the \<open>asyncSpans\<close> gate: as above, on
  \<open>context.Background()\<close>; the span ends when the call returns.\<close>

definition async_finish ::
  "nat \<Rightarrow> pub_ack_future option \<times> err option \<Rightarrow> world
     \<Rightarrow> (pub_ack_future option \<times> err option) \<times> world" where
  "async_finish sp r w =
     (case snd r of
        Some e \<Rightarrow> ((None, Some e), record_error_and_end sp e w)
      | None \<Rightarrow> ((fst r, None), span_End sp w))"

definition PublishAsync ::
  "Publisher \<Rightarrow> string \<Rightarrow> bytes \<Rightarrow> publish_opt list \<Rightarrow> world
     \<Rightarrow> (pub_ack_future option \<times> err option) \<times> world" where
  "PublishAsync p subject data opts w =
     (if \<not> asyncSpans (p_opts p) then (js_PublishAsync (p_js p) subject data opts, w)
      else
        (let (ctx, sp, msg, w) = Publish_begin p Background subject data w
         in async_finish sp (js_PublishMsgAsync (p_js p) msg opts) w))"

definition PublishAsyncMsg ::
  "Publisher \<Rightarrow> nats_msg \<Rightarrow> publish_opt list \<Rightarrow> world
     \<Rightarrow> (pub_ack_future option \<times> err option) \<times> nats_msg \<times> world" where
  "PublishAsyncMsg p msg opts w =
     (if \<not> asyncSpans (p_opts p) then (js_PublishMsgAsync (p_js p) msg opts, msg, w)
      else
        (let (ctx, sp, msg, w) = PublishMsg_begin p Background msg w;
             (r, w) = async_finish sp (js_PublishMsgAsync (p_js p) msg opts) w
         in (r, msg, w)))"

section \<open>Traced messages and iterators\<close>

text \<open>
  \<open>TracedMsg\<close>: the inbound message (a nil interface value is \<open>None\<close>) with its context
  (nil is \<open>None\<close>).
\<close>

record TracedMsg =
  tm_Msg :: "js_msg option"
  tm_ctx :: "go_context option"

definition TracedMsg_Context :: "TracedMsg \<Rightarrow> go_context" where
  "TracedMsg_Context m = (case tm_ctx m of None \<Rightarrow> Background | Some c \<Rightarrow> c)"

text \<open>
  The native \<open>jetstream.MessageBatch\<close>: the messages its \<open>Messages()\<close> channel delivers,
  in order, until it is closed, and its terminal error. The native
  \<open>jetstream.MessagesContext\<close>: the answers its next calls to \<open>Next()\<close> will give, in
  order; a call on the exhausted source does not return.
\<close>

record message_batch =
  mb_Messages :: "js_msg option list"
  mb_Error :: "err option"

record messages_context =
  mc_pending :: "(js_msg option \<times> err option) list"
  mc_stopped :: bool
  mc_drained :: bool

definition mc_Next ::
  "messages_context \<Rightarrow> ((js_msg option \<times> err option) \<times> messages_context) outcome" where
  "mc_Next mc =
     (case mc_pending mc of
        [] \<Rightarrow> Blocks
      | r # rest \<Rightarrow> Returns (r, mc\<lparr>mc_pending := rest\<rparr>))"

text \<open>
  A \<open>chan *TracedMsg\<close> with one sender, identified with what its sender does: it sends
  the listed values in order and closes the channel, or it panics before the first send.
  Go delivers the values of one sender in the order of the sends. Receiving is not
  modelled: the value stands for the channel, not for what is still to be read from it.
\<close>

datatype channel = Delivers "TracedMsg list" | ProducerPanics panic_value

record TracedMessageBatch =
  b_batch :: "message_batch option"
  b_msgChan :: "channel option"
  b_ctx :: go_context
  b_opts :: options
  b_stream :: string
  b_extractCtx :: "go_context \<Rightarrow> js_msg option \<Rightarrow> go_context"

text \<open>
  The loop of the producer goroutine of \<open>TracedMessageBatch.Messages\<close>: it ranges over
  the native channel and sends one wrapped message per native message on the unbuffered
  channel \<open>msgChan\<close>; the last argument is the list of the values sent so far.
\<close>

fun batch_producer ::
  "(go_context \<Rightarrow> js_msg option \<Rightarrow> go_context) \<Rightarrow> go_context \<Rightarrow> js_msg option list
     \<Rightarrow> TracedMsg list \<Rightarrow> TracedMsg list" where
  "batch_producer extractCtx ctx [] msgChan = msgChan"
| "batch_producer extractCtx ctx (msg # rest) msgChan =
     (let tracedMsg = \<lparr>tm_Msg = msg, tm_ctx = Some (extractCtx ctx msg)\<rparr>
      in batch_producer extractCtx ctx rest (msgChan @ [tracedMsg]))"

text \<open>
  \<open>Messages()\<close> returns the channel made by an earlier call when there is one, and
  otherwise makes the channel, starts the producer and returns the channel; the call
  itself always returns. Around a nil native batch it is the producer goroutine that
  panics, when it calls \<open>Messages()\<close> on the nil batch.
\<close>

definition TracedMessageBatch_Messages ::
  "TracedMessageBatch \<Rightarrow> channel \<times> TracedMessageBatch" where
  "TracedMessageBatch_Messages b =
     (case b_msgChan b of
        Some ch \<Rightarrow> (ch, b)
      | None \<Rightarrow>
          (let ch = (case b_batch b of
                       None \<Rightarrow>
                         ProducerPanics
                           (PanicError ''invalid memory address or nil pointer dereference'')
                     | Some batch \<Rightarrow>
                         Delivers
                           (batch_producer (b_extractCtx b) (b_ctx b) (mb_Messages batch) []))
           in (ch, b\<lparr>b_msgChan := Some ch\<rparr>)))"

definition TracedMessageBatch_Error :: "TracedMessageBatch \<Rightarrow> err option outcome" where
  "TracedMessageBatch_Error b =
     (case b_batch b of
        None \<Rightarrow> Panics (PanicError ''invalid memory address or nil pointer dereference'')
      | Some batch \<Rightarrow> Returns (mb_Error batch))"

record TracedMessagesContext =
  mctx_messagesCtx :: "messages_context option"
  mctx_ctx :: go_context
  mctx_opts :: options
  mctx_stream :: string
  mctx_extractCtx :: "go_context \<Rightarrow> js_msg option \<Rightarrow> go_context"

text \<open>\<open>TracedMessagesContext.Next\<close>: the answer, the iterator after the pull, and the world.\<close>

definition TracedMessagesContext_Next ::
  "TracedMessagesContext \<Rightarrow> world
     \<Rightarrow> ((TracedMsg option \<times> err option) \<times> TracedMessagesContext \<times> world) outcome" where
  "TracedMessagesContext_Next c w =
     (case mctx_messagesCtx c of
        None \<Rightarrow> Panics (PanicError ''invalid memory address or nil pointer dereference'')
      | Some mc \<Rightarrow>
          (case mc_Next mc of
             Blocks \<Rightarrow> Blocks
           | Panics v \<Rightarrow> Panics v
           | Returns ((msg, err), mc') \<Rightarrow>
               (case err of
                  Some e \<Rightarrow> Returns ((None, Some e), c\<lparr>mctx_messagesCtx := Some mc'\<rparr>, w)
                | None \<Rightarrow>
                    Returns
                      ((Some \<lparr>tm_Msg = msg, tm_ctx = Some (mctx_extractCtx c (mctx_ctx c) msg)\<rparr>,
                        None),
                       c\<lparr>mctx_messagesCtx := Some mc'\<rparr>, w))))"

section \<open>Consumer wrapper\<close>

record consumer_info =
  ci_Name :: string

record js_consumer =
  c_CachedInfo :: "consumer_info option"
  c_Fetch :: "int \<Rightarrow> fetch_opt list \<Rightarrow> message_batch option \<times> err option"
  c_FetchBytes :: "int \<Rightarrow> fetch_opt list \<Rightarrow> message_batch option \<times> err option"
  c_FetchNoWait :: "int \<Rightarrow> message_batch option \<times> err option"
  c_Next :: "fetch_opt list \<Rightarrow> js_msg option \<times> err option"
  c_Messages :: "string list \<Rightarrow> messages_context option \<times> err option"

record TracedConsumer =
  tc_consumer :: js_consumer
  tc_stream :: string
  tc_tracer :: tracer
  tc_prop :: propagator
  tc_opts :: options

definition WrapConsumerWithProviders ::
  "globals \<Rightarrow> js_consumer option \<Rightarrow> string \<Rightarrow> nat option \<Rightarrow> propagator option \<Rightarrow> Option list
     \<Rightarrow> TracedConsumer outcome" where
  "WrapConsumerWithProviders g c strm tp pr opts =
     (case c of
        None \<Rightarrow> Panics (PanicString ''otx/nats: Consumer must not be nil'')
      | Some cons \<Rightarrow>
          (let os = applyOptions opts;
               os = (case pr of Some p \<Rightarrow> os\<lparr>opts_prop := Some p\<rparr> | None \<Rightarrow> os)
           in Returns \<lparr>tc_consumer = cons, tc_stream = strm, tc_tracer = getTracer g tp os,
                       tc_prop = getPropagator g os, tc_opts = os\<rparr>))"

definition WrapConsumer ::
  "globals \<Rightarrow> js_consumer option \<Rightarrow> string \<Rightarrow> Option list \<Rightarrow> TracedConsumer outcome" where
  "WrapConsumer g c strm opts = WrapConsumerWithProviders g c strm None None opts"

definition startFetchSpan :: "TracedConsumer \<Rightarrow> world \<Rightarrow> go_context \<times> nat \<times> world" where
  "startFetchSpan tc w =
     (let consumerName = (case c_CachedInfo (tc_consumer tc) of
                            Some info \<Rightarrow> ci_Name info
                          | None \<Rightarrow> '''');
          spanName = opTypeReceive @ '' '' @ tc_stream tc
      in tracer_Start (tc_tracer tc) Background spanName SpanKindClient
           (receiveAttributes (tc_stream tc) consumerName 0) w)"

definition extractContext :: "TracedConsumer \<Rightarrow> go_context \<Rightarrow> js_msg option \<Rightarrow> go_context" where
  "extractContext tc ctx msg =
     (case msg of
        None \<Rightarrow> ctx
      | Some m \<Rightarrow>
          (case msg_Headers m of
             None \<Rightarrow> ctx
           | Some headers \<Rightarrow> Extract (tc_prop tc) ctx headers))"

definition wrapBatch ::
  "TracedConsumer \<Rightarrow> go_context \<Rightarrow> message_batch option \<Rightarrow> TracedMessageBatch" where
  "wrapBatch tc ctx batch =
     \<lparr>b_batch = batch, b_msgChan = None, b_ctx = ctx, b_opts = tc_opts tc,
      b_stream = tc_stream tc, b_extractCtx = extractContext tc\<rparr>"

text \<open>What \<open>Fetch\<close>, \<open>FetchBytes\<close> and \<open>FetchNoWait\<close> do with the client's answer.\<close>

definition fetch_finish ::
  "TracedConsumer \<Rightarrow> go_context \<Rightarrow> nat \<Rightarrow> message_batch option \<times> err option \<Rightarrow> world
     \<Rightarrow> (TracedMessageBatch option \<times> err option) \<times> world" where
  "fetch_finish tc ctx sp r w =
     (case snd r of
        Some e \<Rightarrow> ((None, Some e), record_error_and_end sp e w)
      | None \<Rightarrow> ((Some (wrapBatch tc ctx (fst r)), None), span_End sp w))"

definition Fetch ::
  "TracedConsumer \<Rightarrow> int \<Rightarrow> fetch_opt list \<Rightarrow> world
     \<Rightarrow> (TracedMessageBatch option \<times> err option) \<times> world" where
  "Fetch tc batch opts w =
     (let (ctx, sp, w) = startFetchSpan tc w
      in fetch_finish tc ctx sp (c_Fetch (tc_consumer tc) batch opts) w)"

definition FetchBytes ::
  "TracedConsumer \<Rightarrow> int \<Rightarrow> fetch_opt list \<Rightarrow> world
     \<Rightarrow> (TracedMessageBatch option \<times> err option) \<times> world" where
  "FetchBytes tc maxBytes opts w =
     (let (ctx, sp, w) = startFetchSpan tc w
      in fetch_finish tc ctx sp (c_FetchBytes (tc_consumer tc) maxBytes opts) w)"

definition FetchNoWait ::
  "TracedConsumer \<Rightarrow> int \<Rightarrow> world \<Rightarrow> (TracedMessageBatch option \<times> err option) \<times> world" where
  "FetchNoWait tc batch w =
     (let (ctx, sp, w) = startFetchSpan tc w
      in fetch_finish tc ctx sp (c_FetchNoWait (tc_consumer tc) batch) w)"

definition Messages ::
  "TracedConsumer \<Rightarrow> string list \<Rightarrow> world
     \<Rightarrow> (TracedMessagesContext option \<times> err option) \<times> world" where
  "Messages tc opts w =
     (let (messagesCtx, err) = c_Messages (tc_consumer tc) opts
      in case err of
           Some e \<Rightarrow> ((None, Some e), w)
         | None \<Rightarrow>
             ((Some \<lparr>mctx_messagesCtx = messagesCtx, mctx_ctx = Background,
                     mctx_opts = tc_opts tc, mctx_stream = tc_stream tc,
                     mctx_extractCtx = extractContext tc\<rparr>, None), w))"

definition Next ::
  "TracedConsumer \<Rightarrow> fetch_opt list \<Rightarrow> world \<Rightarrow> (TracedMsg option \<times> err option) \<times> world" where
  "Next tc opts w =
     (let (_, sp, w) = startFetchSpan tc w;
          (msg, err) = c_Next (tc_consumer tc) opts
      in case err of
           Some e \<Rightarrow> ((None, Some e), record_error_and_end sp e w)
         | None \<Rightarrow>
             ((Some \<lparr>tm_Msg = msg, tm_ctx = Some (extractContext tc Background msg)\<rparr>, None),
              span_End sp w))"

section \<open>Callback handler wrapper\<close>

text \<open>
  A user handler runs on the traced message and the world; it returns normally
  (\<open>None\<close>) or panics with a value, and leaves the world as its own calls made it.
\<close>

type_synonym handler = "TracedMsg \<Rightarrow> world \<Rightarrow> panic_value option \<times> world"

type_synonym MessageHandler = "js_msg \<Rightarrow> world \<Rightarrow> panic_value option \<times> world"

text \<open>The returned closure, up to the call of the handler: the context is extracted, the
  stream name resolved and the process span started.\<close>

definition process_begin ::
  "tracer \<Rightarrow> propagator \<Rightarrow> options \<Rightarrow> js_msg \<Rightarrow> world \<Rightarrow> TracedMsg \<times> nat \<times> world" where
  "process_begin tr propagator os msg w =
     (let parentCtx = Background;
          parentCtx = (case msg_Headers msg of
                         Some headers \<Rightarrow> Extract propagator parentCtx headers
                       | None \<Rightarrow> parentCtx);
          (metadata, err) = msg_Metadata msg;
          strm = (case (err, metadata) of (None, Some md) \<Rightarrow> Stream md | _ \<Rightarrow> '''');
          consumerName = (case (err, metadata) of (None, Some md) \<Rightarrow> Consumer md | _ \<Rightarrow> '''');
          subject = (if msg_Subject msg \<noteq> '''' then msg_Subject msg else '''');
          strm = (if stream os \<noteq> '''' then stream os else strm);
          spanName = opTypeProcess @ '' '' @ strm;
          (spanCtx, sp, w) = tracer_Start tr parentCtx spanName SpanKindConsumer
                               (processAttributes strm consumerName subject ''''
                                  (int (length (msg_Data msg)))) w;
          tracedMsg = \<lparr>tm_Msg = Some msg, tm_ctx = Some spanCtx\<rparr>
      in (tracedMsg, sp, w))"

text \<open>The deferred function: on a panic the error is recorded, the status set and the
  span ended before the same value is raised again; otherwise the span is ended.\<close>

definition process_deferred :: "nat \<Rightarrow> panic_value option \<Rightarrow> world \<Rightarrow> panic_value option \<times> world" where
  "process_deferred sp r w =
     (case r of
        Some v \<Rightarrow>
          (Some v,
           span_End sp
             (span_SetStatus sp StatusError ''panic in handler''
                (span_RecordError sp (''panic: '' @ fmt_v v) w)))
      | None \<Rightarrow> (None, span_End sp w))"

definition traced_handler :: "handler \<Rightarrow> tracer \<Rightarrow> propagator \<Rightarrow> options \<Rightarrow> MessageHandler" where
  "traced_handler h tr propagator os msg w =
     (let (tracedMsg, sp, w) = process_begin tr propagator os msg w;
          (r, w) = h tracedMsg w
      in process_deferred sp r w)"

definition MessageHandlerWithTracingProviders ::
  "globals \<Rightarrow> handler option \<Rightarrow> nat option \<Rightarrow> propagator option \<Rightarrow> Option list
     \<Rightarrow> MessageHandler outcome" where
  "MessageHandlerWithTracingProviders g h tp pr opts =
     (case h of
        None \<Rightarrow> Panics (PanicString ''otx/nats: handler must not be nil'')
      | Some handler \<Rightarrow>
          (let os = applyOptions opts;
               os = (case pr of Some p \<Rightarrow> os\<lparr>opts_prop := Some p\<rparr> | None \<Rightarrow> os);
               tr = getTracer g tp os;
               propagator = getPropagator g os
           in Returns (traced_handler handler tr propagator os)))"

definition MessageHandlerWithTracing ::
  "globals \<Rightarrow> handler option \<Rightarrow> Option list \<Rightarrow> MessageHandler outcome" where
  "MessageHandlerWithTracing g h opts = MessageHandlerWithTracingProviders g h None None opts"

section \<open>Manual injection and extraction\<close>

text \<open>\<open>InjectNATS\<close> mutates the message; the message after the call is returned.\<close>

definition InjectNATSWithPropagator ::
  "go_context \<Rightarrow> nats_msg \<Rightarrow> propagator \<Rightarrow> world \<Rightarrow> nats_msg \<times> world" where
  "InjectNATSWithPropagator ctx msg p w =
     (let h = (case Header msg of None \<Rightarrow> Map.empty | Some h \<Rightarrow> h);
          (h, w) = Inject p ctx h w
      in (msg\<lparr>Header := Some h\<rparr>, w))"

definition InjectNATS :: "globals \<Rightarrow> go_context \<Rightarrow> nats_msg \<Rightarrow> world \<Rightarrow> nats_msg \<times> world" where
  "InjectNATS g ctx msg w =
     (let h = (case Header msg of None \<Rightarrow> Map.empty | Some h \<Rightarrow> h);
          (h, w) = Inject (g_TextMapPropagator g) ctx h w
      in (msg\<lparr>Header := Some h\<rparr>, w))"

definition ExtractNATS :: "globals \<Rightarrow> go_context \<Rightarrow> header option \<Rightarrow> go_context" where
  "ExtractNATS g ctx hdr =
     (case hdr of
        None \<Rightarrow> ctx
      | Some h \<Rightarrow> Extract (g_TextMapPropagator g) ctx h)"

definition ExtractNATSWithPropagator ::
  "go_context \<Rightarrow> header option \<Rightarrow> propagator \<Rightarrow> go_context" where
  "ExtractNATSWithPropagator ctx hdr p =
     (case hdr of
        None \<Rightarrow> ctx
      | Some h \<Rightarrow> Extract p ctx h)"

section \<open>The delegated calls\<close>

text \<open>
  The answer of the underlying client to the one call that each publishing operation
  delegates to, with the arguments the operation passes.
\<close>

definition Publish_delegate ::
  "Publisher \<Rightarrow> go_context \<Rightarrow> string \<Rightarrow> bytes \<Rightarrow> publish_opt list \<Rightarrow> world
     \<Rightarrow> pub_ack option \<times> err option" where
  "Publish_delegate p ctx subject data opts w =
     (let (ctx, sp, msg, w) = Publish_begin p ctx subject data w
      in js_PublishMsg (p_js p) ctx msg opts)"

definition PublishMsg_delegate ::
  "Publisher \<Rightarrow> go_context \<Rightarrow> nats_msg \<Rightarrow> publish_opt list \<Rightarrow> world
     \<Rightarrow> pub_ack option \<times> err option" where
  "PublishMsg_delegate p ctx msg opts w =
     (let (ctx, sp, msg, w) = PublishMsg_begin p ctx msg w
      in js_PublishMsg (p_js p) ctx msg opts)"

definition PublishAsync_delegate ::
  "Publisher \<Rightarrow> string \<Rightarrow> bytes \<Rightarrow> publish_opt list \<Rightarrow> world
     \<Rightarrow> pub_ack_future option \<times> err option" where
  "PublishAsync_delegate p subject data opts w =
     (if \<not> asyncSpans (p_opts p) then js_PublishAsync (p_js p) subject data opts
      else
        (let (ctx, sp, msg, w) = Publish_begin p Background subject data w
         in js_PublishMsgAsync (p_js p) msg opts))"

definition PublishAsyncMsg_delegate ::
  "Publisher \<Rightarrow> nats_msg \<Rightarrow> publish_opt list \<Rightarrow> world
     \<Rightarrow> pub_ack_future option \<times> err option" where
  "PublishAsyncMsg_delegate p msg opts w =
     (if \<not> asyncSpans (p_opts p) then js_PublishMsgAsync (p_js p) msg opts
      else
        (let (ctx, sp, msg, w) = PublishMsg_begin p Background msg w
         in js_PublishMsgAsync (p_js p) msg opts))"

text \<open>
  What a failed delegation leaves on the span that the call started (the span at the
  first free handle of the world before the call): the error as its only event, the error
  status with the error's message, and one \<open>End\<close>.
\<close>

definition error_recorded :: "world \<Rightarrow> err \<Rightarrow> world \<Rightarrow> bool" where
  "error_recorded w e w' =
     (length (w_spans w') = Suc (length (w_spans w))
      \<and> take (length (w_spans w)) (w_spans w') = w_spans w
      \<and> sp_events (w_spans w' ! length (w_spans w)) = [e]
      \<and> sp_status (w_spans w' ! length (w_spans w)) = (StatusError, e)
      \<and> sp_ended (w_spans w' ! length (w_spans w)) = 1)"

section \<open>A trace-context propagator and concrete inputs\<close>

text \<open>
  The W3C propagator \<open>propagation.TraceContext{}\<close> that the repository installs by
  default, reduced to the \<open>traceparent\<close> header: version, trace id, span id and flags,
  separated by dashes, at fixed positions. It is a stand-in for the library's propagator
  on sampled span contexts with well-formed ids: the flags byte is always written as
  \<open>01\<close> and not read back, the \<open>tracestate\<close> header is left out, and the extractor
  checks the length and the dashes but not that the ids are hexadecimal.
\<close>

definition TraceContext :: propagator where
  "TraceContext =
     \<lparr>prop_Inject = (\<lambda>ctx.
        case ctx_span ctx of
          None \<Rightarrow> []
        | Some sc \<Rightarrow>
            if sc_IsValid sc
            then [(''traceparent'', ''00-'' @ TraceID sc @ ''-'' @ SpanID sc @ ''-01'')]
            else []),
      prop_Extract = (\<lambda>ctx c.
        let h = car_Get c ''traceparent'' in
        if length h = 55 \<and> take 3 h = ''00-'' \<and> h ! 35 = CHR ''-'' \<and> h ! 52 = CHR ''-''
        then
          (let sc = \<lparr>TraceID = take 32 (drop 3 h), SpanID = take 16 (drop 36 h), Remote = True\<rparr>
           in if sc_IsValid sc then ctx\<lparr>ctx_span := Some sc\<rparr> else ctx)
        else ctx)\<rparr>"

definition trace_identity :: "go_context \<Rightarrow> (string \<times> string) option" where
  "trace_identity ctx = map_option (\<lambda>sc. (TraceID sc, SpanID sc)) (ctx_span ctx)"

definition ex_globals :: globals where
  "ex_globals = \<lparr>g_TracerProvider = 0, g_TextMapPropagator = TraceContext, g_trackerTracer = None\<rparr>"

definition ex_newids :: "nat \<Rightarrow> string \<times> string" where
  "ex_newids n = (''4bf92f3577b34da6a3ce929d0e0e4736'', ''00f067aa0ba902b7'')"

definition ex_world :: world where
  "ex_world = \<lparr>w_spans = [], w_newids = ex_newids, w_injects = 0\<rparr>"

definition ex_span_context :: span_context where
  "ex_span_context =
     \<lparr>TraceID = ''0af7651916cd43dd8448eb211c80319c'', SpanID = ''b7ad6b7169203331'', Remote = False\<rparr>"

definition ex_ctx :: go_context where
  "ex_ctx = \<lparr>ctx_span = Some ex_span_context, ctx_values = []\<rparr>"

definition failing_js :: jetstream where
  "failing_js =
     \<lparr>js_PublishMsg = (\<lambda>ctx msg opts. (None, Some ''nats: timeout'')),
      js_PublishAsync = (\<lambda>subject data opts. (None, Some ''nats: timeout'')),
      js_PublishMsgAsync = (\<lambda>msg opts. (None, Some ''nats: timeout''))\<rparr>"

definition ex_nats_msg :: nats_msg where
  "ex_nats_msg = \<lparr>Subject = ''orders.created'', Data = [116, 101, 115, 116], Header = None\<rparr>"

definition ex_js_msg :: js_msg where
  "ex_js_msg =
     \<lparr>msg_Subject = ''orders.created'', msg_Data = [116, 101, 115, 116],
      msg_Headers = Some (Map.empty(''traceparent'' \<mapsto>
        [''00-0af7651916cd43dd8448eb211c80319c-b7ad6b7169203331-01''])),
      msg_Metadata = (Some \<lparr>Stream = ''ORDERS'', Consumer = ''test-consumer''\<rparr>, None)\<rparr>"

definition ex_messages_context :: messages_context where
  "ex_messages_context =
     \<lparr>mc_pending = [(Some ex_js_msg, None)], mc_stopped = False, mc_drained = False\<rparr>"

definition failing_consumer :: js_consumer where
  "failing_consumer =
     \<lparr>c_CachedInfo = Some \<lparr>ci_Name = ''test-consumer''\<rparr>,
      c_Fetch = (\<lambda>batch opts. (None, Some ''nats: timeout'')),
      c_FetchBytes = (\<lambda>maxBytes opts. (None, Some ''nats: timeout'')),
      c_FetchNoWait = (\<lambda>batch. (None, Some ''nats: timeout'')),
      c_Next = (\<lambda>opts. (None, Some ''nats: timeout'')),
      c_Messages = (\<lambda>opts. (Some ex_messages_context, None))\<rparr>"

definition returning_handler :: handler where
  "returning_handler = (\<lambda>msg w. (None, w))"


definition ex_js_msg_other :: js_msg where
  "ex_js_msg_other =
     \<lparr>msg_Subject = ''orders.shipped'', msg_Data = [50],
      msg_Headers = Some (Map.empty(''traceparent'' \<mapsto>
        [''00-4bf92f3577b34da6a3ce929d0e0e4736-00f067aa0ba902b7-01''])),
      msg_Metadata = (Some \<lparr>Stream = ''ORDERS'', Consumer = ''test-consumer''\<rparr>, None)\<rparr>"

definition ex_js_msg_plain :: js_msg where
  "ex_js_msg_plain =
     \<lparr>msg_Subject = ''orders.cancelled'', msg_Data = [51], msg_Headers = None,
      msg_Metadata = (Some \<lparr>Stream = ''ORDERS'', Consumer = ''test-consumer''\<rparr>, None)\<rparr>"

definition ex_batch :: message_batch where
  "ex_batch =
     \<lparr>mb_Messages = [Some ex_js_msg, Some ex_js_msg_other, Some ex_js_msg_plain],
      mb_Error = None\<rparr>"

definition ex_pub :: Publisher where
  "ex_pub =
     \<lparr>p_js = failing_js, p_tracer = provider_Tracer 0 ''otx/nats'', p_prop = TraceContext,
      p_opts = defaultOptions\<rparr>"

definition ex_pub_noasync :: Publisher where
  "ex_pub_noasync =
     \<lparr>p_js = failing_js, p_tracer = provider_Tracer 0 ''otx/nats'', p_prop = TraceContext,
      p_opts = defaultOptions\<lparr>asyncSpans := False\<rparr>\<rparr>"

definition ex_tc :: TracedConsumer where
  "ex_tc =
     \<lparr>tc_consumer = failing_consumer, tc_stream = ''ORDERS'',
      tc_tracer = provider_Tracer 0 ''otx/nats'', tc_prop = TraceContext,
      tc_opts = defaultOptions\<rparr>"

definition ex_batch_tc :: TracedConsumer where
  "ex_batch_tc =
     ex_tc\<lparr>tc_consumer := failing_consumer\<lparr>c_Fetch := (\<lambda>batch opts. (Some ex_batch, None))\<rparr>\<rparr>"

definition ex_receive_ctx :: go_context where
  "ex_receive_ctx =
     \<lparr>ctx_span = Some \<lparr>TraceID = ''4bf92f3577b34da6a3ce929d0e0e4736'',
                        SpanID = ''00f067aa0ba902b7'', Remote = False\<rparr>,
      ctx_values = []\<rparr>"

definition ex_iterator :: TracedMessagesContext where
  "ex_iterator =
     \<lparr>mctx_messagesCtx = Some ex_messages_context, mctx_ctx = Background,
      mctx_opts = defaultOptions, mctx_stream = ''ORDERS'',
      mctx_extractCtx = extractContext ex_tc\<rparr>"

definition ex_remote_ctx :: go_context where
  "ex_remote_ctx = \<lparr>ctx_span = Some (ex_span_context\<lparr>Remote := True\<rparr>), ctx_values = []\<rparr>"

section \<open>Theorems\<close>

lemmas attr_consts =
  messagingSystem_def attrMessagingSystem_def attrMessagingOperationName_def
  attrMessagingOperationType_def attrMessagingDestinationName_def
  attrMessagingConsumerGroup_def attrMessagingMessageID_def
  attrMessagingMessageBodySize_def attrNATSStream_def
  opTypePublish_def opTypeReceive_def opTypeProcess_def opTypeSend_def

text \<open>
  C5. \<open>publishAttributes("orders.created", "", 0)\<close> is exactly the four fixed pairs
  (system, operation name, operation type, destination), so the message-id key and the
  body-size key do not occur in it at all; \<open>publishAttributes("orders.created", "msg-1", 10)\<close>
  contains the message-id pair with value \<open>msg-1\<close> and the body-size pair with value 10.
\<close>

theorem publishAttributes_presence_absence:
  "publishAttributes ''orders.created'' '''' 0 =
     [(''messaging.system'', StringValue ''nats''),
      (''messaging.operation.name'', StringValue ''publish''),
      (''messaging.operation.type'', StringValue ''send''),
      (''messaging.destination.name'', StringValue ''orders.created'')]
   \<and> ''messaging.message.id'' \<notin> fst ` set (publishAttributes ''orders.created'' '''' 0)
   \<and> ''messaging.message.body.size'' \<notin> fst ` set (publishAttributes ''orders.created'' '''' 0)
   \<and> (''messaging.message.id'', StringValue ''msg-1'')
        \<in> set (publishAttributes ''orders.created'' ''msg-1'' 10)
   \<and> (''messaging.message.body.size'', IntValue 10)
        \<in> set (publishAttributes ''orders.created'' ''msg-1'' 10)"
  by (simp add: publishAttributes_def attr_consts)

subsection \<open>Facts about the recording tracer\<close>

lemma span_update_length [simp]: "length (w_spans (span_update i f w)) = length (w_spans w)"
  by (simp add: span_update_def)

lemma span_update_nth:
  "w_spans (span_update i f w) ! j =
     (if j = i \<and> i < length (w_spans w) then f (w_spans w ! j) else w_spans w ! j)"
  by (simp add: span_update_def)

lemma span_update_injects [simp]: "w_injects (span_update i f w) = w_injects w"
  by (simp add: span_update_def)

lemmas span_ops = span_RecordError_def span_SetStatus_def span_SetAttributes_def span_End_def

lemma tracer_Start_spans:
  "tracer_Start t ctx name kind attrs w = (ctx', sp, w') \<Longrightarrow>
     sp = length (w_spans w) \<and> length (w_spans w') = Suc (length (w_spans w))
     \<and> sp_parent (w_spans w' ! sp) = ctx_span ctx
     \<and> take (length (w_spans w)) (w_spans w') = w_spans w"
  by (auto simp: tracer_Start_def Let_def)

lemma record_error_and_end_parent:
  "sp_parent (w_spans (record_error_and_end sp e w) ! j) = sp_parent (w_spans w ! j)"
  by (simp add: record_error_and_end_def span_ops span_update_nth)

lemma record_error_and_end_length [simp]:
  "length (w_spans (record_error_and_end sp e w)) = length (w_spans w)"
  by (simp add: record_error_and_end_def span_ops)

lemma span_End_parent:
  "sp_parent (w_spans (span_End sp w) ! j) = sp_parent (w_spans w ! j)"
  by (simp add: span_ops span_update_nth)

lemma span_End_length [simp]: "length (w_spans (span_End sp w)) = length (w_spans w)"
  by (simp add: span_ops)

subsection \<open>Construction\<close>

text \<open>
  C1. Each of the six construction entry points, called with a nil required dependency
  (JetStream handle, Consumer, handler), panics with the fixed message of that entry point,
  whatever the other arguments are; the result is a function of the arguments, so it is
  the same on every call, and it is never a returned value.
\<close>

theorem nil_dependency_panics:
  "NewPublisher g None opts = Panics (PanicString ''otx/nats: JetStream must not be nil'')
   \<and> NewPublisherWithProviders g None tp pr opts =
       Panics (PanicString ''otx/nats: JetStream must not be nil'')
   \<and> WrapConsumer g None strm opts = Panics (PanicString ''otx/nats: Consumer must not be nil'')
   \<and> WrapConsumerWithProviders g None strm tp pr opts =
       Panics (PanicString ''otx/nats: Consumer must not be nil'')
   \<and> MessageHandlerWithTracing g None opts =
       Panics (PanicString ''otx/nats: handler must not be nil'')
   \<and> MessageHandlerWithTracingProviders g None tp pr opts =
       Panics (PanicString ''otx/nats: handler must not be nil'')"
  by (simp add: NewPublisher_def NewPublisherWithProviders_def WrapConsumer_def
      WrapConsumerWithProviders_def MessageHandlerWithTracing_def
      MessageHandlerWithTracingProviders_def)

subsection \<open>Batch iterator\<close>

lemma batch_producer_map:
  "batch_producer ex ctx msgs ch =
     ch @ map (\<lambda>m. \<lparr>tm_Msg = m, tm_ctx = Some (ex ctx m)\<rparr>) msgs"
  by (induction msgs arbitrary: ch) (simp_all add: Let_def)

lemma ex_startFetchSpan_ctx: "fst (startFetchSpan ex_batch_tc ex_world) = ex_receive_ctx"
  by (simp add: startFetchSpan_def tracer_Start_def Let_def ex_world_def ex_newids_def
      Background_def ex_receive_ctx_def)

lemma ex_batch_tc_Fetch: "c_Fetch (tc_consumer ex_batch_tc) 3 [] = (Some ex_batch, None)"
  by (simp add: ex_batch_tc_def)

lemma ex_batch_tc_prop: "tc_prop ex_batch_tc = TraceContext"
  by (simp add: ex_batch_tc_def ex_tc_def)

text \<open>
  C9. For the batch wrapper that the consumer builds around a native batch, the channel of
  \<open>Messages()\<close> carries exactly the native messages, one wrapped message for each and in
  the same order, after which it is closed. The context of each wrapped message depends
  on that message alone: it is what the consumer's propagator extracts, on the batch's
  context, from a carrier whose \<open>Get\<close> returns the first value the message's own header
  map holds for the key (the empty string when there is none) and whose keys are those of
  that map; for a nil message and for a message without headers it is the batch's context
  unchanged. The batch's context is the one a successful \<open>Fetch\<close> got from starting its
  receive span.
\<close>

theorem batch_messages_fifo:
  "(let wrap = (\<lambda>m. \<lparr>tm_Msg = m,
                       tm_ctx = Some
                         (case m of
                            None \<Rightarrow> ctx
                          | Some msg \<Rightarrow>
                              (case msg_Headers msg of
                                 None \<Rightarrow> ctx
                               | Some headers \<Rightarrow>
                                   prop_Extract (tc_prop tc) ctx
                                     \<lparr>car_Get = (\<lambda>key. case headers key of
                                                          None \<Rightarrow> ''''
                                                        | Some [] \<Rightarrow> ''''
                                                        | Some (v # vs) \<Rightarrow> v),
                                      car_Keys = dom headers\<rparr>))\<rparr>)
    in TracedMessageBatch_Messages (wrapBatch tc ctx (Some mb)) =
         (Delivers (map wrap (mb_Messages mb)),
          (wrapBatch tc ctx (Some mb))\<lparr>b_msgChan := Some (Delivers (map wrap (mb_Messages mb)))\<rparr>))
   \<and> (c_Fetch (tc_consumer tc) n fo = (Some mb, None) \<longrightarrow>
        fst (Fetch tc n fo w) = (Some (wrapBatch tc (fst (startFetchSpan tc w)) (Some mb)), None))"
proof -
  have get: "headerCarrier_Get headers =
      (\<lambda>key. case headers key of None \<Rightarrow> '''' | Some [] \<Rightarrow> '''' | Some (v # vs) \<Rightarrow> v)"
    for headers
    by (rule ext) (simp add: headerCarrier_Get_def Header_Values_def split: option.splits list.splits)
  have ex: "extractContext tc ctx m =
      (case m of
         None \<Rightarrow> ctx
       | Some msg \<Rightarrow>
           (case msg_Headers msg of
              None \<Rightarrow> ctx
            | Some headers \<Rightarrow>
                prop_Extract (tc_prop tc) ctx
                  \<lparr>car_Get = (\<lambda>key. case headers key of
                                       None \<Rightarrow> '''' | Some [] \<Rightarrow> '''' | Some (v # vs) \<Rightarrow> v),
                   car_Keys = dom headers\<rparr>))" for m
    by (simp add: extractContext_def Extract_def headerCarrier_def headerCarrier_Keys_def get
        split: option.splits)
  have ch: "batch_producer (extractContext tc) ctx (mb_Messages mb) [] =
      map (\<lambda>m. \<lparr>tm_Msg = m, tm_ctx = Some (extractContext tc ctx m)\<rparr>) (mb_Messages mb)"
    by (simp add: batch_producer_map)
  have fetch: "c_Fetch (tc_consumer tc) n fo = (Some mb, None) \<Longrightarrow>
        fst (Fetch tc n fo w) = (Some (wrapBatch tc (fst (startFetchSpan tc w)) (Some mb)), None)"
    by (simp add: Fetch_def fetch_finish_def split_def Let_def)
  show ?thesis
    using fetch
    by (simp add: TracedMessageBatch_Messages_def wrapBatch_def ch ex Let_def)
qed

theorem batch_messages_fifo_witness:
  "c_Fetch (tc_consumer ex_batch_tc) 3 [] = (Some ex_batch, None)
   \<and> fst (Fetch ex_batch_tc 3 [] ex_world) = (Some (wrapBatch ex_batch_tc ex_receive_ctx (Some ex_batch)), None)
   \<and> fst (TracedMessageBatch_Messages (wrapBatch ex_batch_tc ex_receive_ctx (Some ex_batch))) =
       Delivers
         [\<lparr>tm_Msg = Some ex_js_msg,
           tm_ctx = Some \<lparr>ctx_span = Some \<lparr>TraceID = ''0af7651916cd43dd8448eb211c80319c'',
                                            SpanID = ''b7ad6b7169203331'', Remote = True\<rparr>,
                          ctx_values = []\<rparr>\<rparr>,
          \<lparr>tm_Msg = Some ex_js_msg_other,
           tm_ctx = Some \<lparr>ctx_span = Some \<lparr>TraceID = ''4bf92f3577b34da6a3ce929d0e0e4736'',
                                            SpanID = ''00f067aa0ba902b7'', Remote = True\<rparr>,
                          ctx_values = []\<rparr>\<rparr>,
          \<lparr>tm_Msg = Some ex_js_msg_plain,
           tm_ctx = Some \<lparr>ctx_span = Some \<lparr>TraceID = ''4bf92f3577b34da6a3ce929d0e0e4736'',
                                            SpanID = ''00f067aa0ba902b7'', Remote = False\<rparr>,
                          ctx_values = []\<rparr>\<rparr>]"
proof -
  have m: "mb_Messages ex_batch = [Some ex_js_msg, Some ex_js_msg_other, Some ex_js_msg_plain]"
    by (simp add: ex_batch_def)
  have h: "msg_Headers ex_js_msg = Some (Map.empty(''traceparent'' \<mapsto>
             [''00-0af7651916cd43dd8448eb211c80319c-b7ad6b7169203331-01'']))"
    "msg_Headers ex_js_msg_other = Some (Map.empty(''traceparent'' \<mapsto>
             [''00-4bf92f3577b34da6a3ce929d0e0e4736-00f067aa0ba902b7-01'']))"
    "msg_Headers ex_js_msg_plain = None"
    by (simp_all add: ex_js_msg_def ex_js_msg_other_def ex_js_msg_plain_def)
  show ?thesis
    using batch_messages_fifo [of ex_receive_ctx ex_batch_tc ex_batch 3 "[]" ex_world]
      ex_batch_tc_Fetch
    by (simp add: Let_def m h ex_batch_tc_prop ex_startFetchSpan_ctx TraceContext_def
        sc_IsValid_def ex_receive_ctx_def)
qed

subsection \<open>Receive spans\<close>

lemma startFetchSpan_root:
  "startFetchSpan tc w = (ctx, sp, w1) \<Longrightarrow>
     sp = length (w_spans w) \<and> length (w_spans w1) = Suc (length (w_spans w))
     \<and> sp_parent (w_spans w1 ! length (w_spans w)) = None"
  by (auto simp: startFetchSpan_def Let_def Background_def dest!: tracer_Start_spans)

lemma fetch_finish_root:
  "sp_parent (w_spans (snd (fetch_finish tc ctx sp r w)) ! j) = sp_parent (w_spans w ! j)
   \<and> length (w_spans (snd (fetch_finish tc ctx sp r w))) = length (w_spans w)"
  by (simp add: fetch_finish_def record_error_and_end_parent span_End_parent split: option.splits)

text \<open>
  C10. \<open>Fetch\<close>, \<open>FetchBytes\<close>, \<open>FetchNoWait\<close> and \<open>Next\<close> take no context; each starts
  exactly one span, on \<open>context.Background()\<close>, and that span (the one at the first free
  handle) has no parent when the call returns, whatever spans exist already.
\<close>

theorem receive_span_is_root:
  "sp_parent (w_spans (snd (Fetch tc n fo w)) ! length (w_spans w)) = None
   \<and> length (w_spans (snd (Fetch tc n fo w))) = Suc (length (w_spans w))
   \<and> sp_parent (w_spans (snd (FetchBytes tc n fo w)) ! length (w_spans w)) = None
   \<and> length (w_spans (snd (FetchBytes tc n fo w))) = Suc (length (w_spans w))
   \<and> sp_parent (w_spans (snd (FetchNoWait tc n w)) ! length (w_spans w)) = None
   \<and> length (w_spans (snd (FetchNoWait tc n w))) = Suc (length (w_spans w))
   \<and> sp_parent (w_spans (snd (Next tc fo w)) ! length (w_spans w)) = None
   \<and> length (w_spans (snd (Next tc fo w))) = Suc (length (w_spans w))"
proof -
  obtain ctx sp w1 where s: "startFetchSpan tc w = (ctx, sp, w1)"
    by (cases "startFetchSpan tc w") auto
  note r = startFetchSpan_root [OF s]
  have f: "sp_parent (w_spans (snd (Fetch tc n fo w)) ! length (w_spans w)) = None
     \<and> length (w_spans (snd (Fetch tc n fo w))) = Suc (length (w_spans w))"
    using r by (simp add: Fetch_def s fetch_finish_root)
  have fb: "sp_parent (w_spans (snd (FetchBytes tc n fo w)) ! length (w_spans w)) = None
     \<and> length (w_spans (snd (FetchBytes tc n fo w))) = Suc (length (w_spans w))"
    using r by (simp add: FetchBytes_def s fetch_finish_root)
  have fn: "sp_parent (w_spans (snd (FetchNoWait tc n w)) ! length (w_spans w)) = None
     \<and> length (w_spans (snd (FetchNoWait tc n w))) = Suc (length (w_spans w))"
    using r by (simp add: FetchNoWait_def s fetch_finish_root)
  have nx: "sp_parent (w_spans (snd (Next tc fo w)) ! length (w_spans w)) = None
     \<and> length (w_spans (snd (Next tc fo w))) = Suc (length (w_spans w))"
    using r
    by (cases "c_Next (tc_consumer tc) fo")
       (auto simp: Next_def s record_error_and_end_parent span_End_parent split: option.splits)
  from f fb fn nx show ?thesis by simp
qed

subsection \<open>Asynchronous publishing with the span gate closed\<close>

lemma applyOptions_loop_asyncSpans_last:
  "asyncSpans (applyOptions_loop (opts @ [WithAsyncSpans b]) os) = b"
  by (induction opts arbitrary: os) (simp_all add: WithAsyncSpans_def)

text \<open>
  C6. On a publisher built from options that leave the async-span toggle off (as
  \<open>WithAsyncSpans(false)\<close> does), \<open>PublishAsync\<close> and \<open>PublishAsyncMsg\<close> return the
  underlying client's answer to the same arguments and leave the world as it was: no span
  is started or ended and no injection is counted. The caller's message comes back equal
  to the one passed in, so a nil header stays nil.
\<close>

theorem async_spans_disabled_passthrough:
  assumes "NewPublisherWithProviders g js tp pr opts = Returns p"
      and "\<not> asyncSpans (applyOptions opts)"
  shows "js = Some (p_js p)
     \<and> PublishAsync p subject data popts w = (js_PublishAsync (p_js p) subject data popts, w)
     \<and> PublishAsyncMsg p msg popts w = (js_PublishMsgAsync (p_js p) msg popts, msg, w)"
proof -
  from assms(1) obtain j where j: "js = Some j"
    by (cases js) (simp_all add: NewPublisherWithProviders_def)
  from assms(1) j have pj: "p_js p = j"
    by (auto simp: NewPublisherWithProviders_def Let_def)
  from assms j have off: "\<not> asyncSpans (p_opts p)"
    by (cases pr) (auto simp: NewPublisherWithProviders_def Let_def)
  show ?thesis
    using j pj off by (simp add: PublishAsync_def PublishAsyncMsg_def)
qed

theorem async_spans_disabled_passthrough_witness:
  "NewPublisherWithProviders ex_globals (Some failing_js) None None [WithAsyncSpans False] =
     Returns \<lparr>p_js = failing_js, p_tracer = provider_Tracer 0 ''otx/nats'',
              p_prop = TraceContext, p_opts = defaultOptions\<lparr>asyncSpans := False\<rparr>\<rparr>
   \<and> \<not> asyncSpans (applyOptions [WithAsyncSpans False])
   \<and> PublishAsyncMsg
        \<lparr>p_js = failing_js, p_tracer = provider_Tracer 0 ''otx/nats'',
         p_prop = TraceContext, p_opts = defaultOptions\<lparr>asyncSpans := False\<rparr>\<rparr>
        ex_nats_msg [] ex_world =
       ((None, Some ''nats: timeout''), ex_nats_msg, ex_world)
   \<and> Header ex_nats_msg = None"
proof -
  have c: "NewPublisherWithProviders ex_globals (Some failing_js) None None [WithAsyncSpans False] =
     Returns \<lparr>p_js = failing_js, p_tracer = provider_Tracer 0 ''otx/nats'',
              p_prop = TraceContext, p_opts = defaultOptions\<lparr>asyncSpans := False\<rparr>\<rparr>"
    by (simp add: NewPublisherWithProviders_def applyOptions_def WithAsyncSpans_def
        getTracer_def getPropagator_def ex_globals_def defaultOptions_def instrumentationName_def)
  have n: "\<not> asyncSpans (applyOptions [WithAsyncSpans False])"
    by (simp add: applyOptions_def WithAsyncSpans_def)
  show ?thesis
    using async_spans_disabled_passthrough [OF c n, of "''orders.created''" "[]" "[]" ex_world ex_nats_msg] c n
    by (simp add: failing_js_def ex_nats_msg_def)
qed

subsection \<open>Failures of the underlying client\<close>

lemma tracer_Start_fresh:
  "tracer_Start t ctx name kind attrs w = (ctx', sp, w') \<Longrightarrow>
     sp = length (w_spans w) \<and> w_injects w' = w_injects w
     \<and> (\<exists>s. w_spans w' = w_spans w @ [s] \<and> sp_events s = [] \<and> sp_ended s = 0
            \<and> sp_parent s = ctx_span ctx \<and> sp_name s = name \<and> sp_kind s = kind)"
  by (auto simp: tracer_Start_def Let_def)

lemma Publish_begin_fresh:
  "Publish_begin p ctx subject data w = (c1, sp, m, w1) \<Longrightarrow>
     sp = length (w_spans w)
     \<and> (\<exists>s. w_spans w1 = w_spans w @ [s] \<and> sp_events s = [] \<and> sp_ended s = 0)"
  by (auto simp: Publish_begin_def Let_def Inject_def split: prod.splits
      dest!: tracer_Start_fresh)

lemma PublishMsg_begin_fresh:
  "PublishMsg_begin p ctx msg w = (c1, sp, m, w1) \<Longrightarrow>
     sp = length (w_spans w) \<and> Subject m = Subject msg
     \<and> (\<exists>s. w_spans w1 = w_spans w @ [s] \<and> sp_events s = [] \<and> sp_ended s = 0)"
  by (auto simp: PublishMsg_begin_def Let_def Inject_def split: prod.splits
      dest!: tracer_Start_fresh)

lemma startFetchSpan_fresh:
  "startFetchSpan tc w = (c1, sp, w1) \<Longrightarrow>
     sp = length (w_spans w)
     \<and> (\<exists>s. w_spans w1 = w_spans w @ [s] \<and> sp_events s = [] \<and> sp_ended s = 0)"
  by (auto simp: startFetchSpan_def Let_def dest!: tracer_Start_fresh)

lemma record_error_and_end_fresh:
  assumes "w_spans w1 = w_spans w @ [s]" "sp_events s = []" "sp_ended s = 0"
  shows "error_recorded w e (record_error_and_end (length (w_spans w)) e w1)"
  using assms
  by (simp add: error_recorded_def record_error_and_end_def span_ops span_update_def)

lemma Publish_error:
  assumes "snd (Publish_delegate p ctx subject data po w) = Some e"
  shows "fst (Publish p ctx subject data po w) = (None, Some e)
     \<and> error_recorded w e (snd (Publish p ctx subject data po w))"
proof -
  obtain c1 sp m w1 where b: "Publish_begin p ctx subject data w = (c1, sp, m, w1)"
    by (cases "Publish_begin p ctx subject data w") auto
  from Publish_begin_fresh [OF b] obtain s where
    sp: "sp = length (w_spans w)" and s: "w_spans w1 = w_spans w @ [s]" "sp_events s = []" "sp_ended s = 0"
    by blast
  from assms b have d: "snd (js_PublishMsg (p_js p) c1 m po) = Some e"
    by (simp add: Publish_delegate_def)
  show ?thesis
    using record_error_and_end_fresh [OF s, of e]
    by (simp add: Publish_def b sp publish_finish_def d)
qed

lemma PublishMsg_error:
  assumes "snd (PublishMsg_delegate p ctx msg po w) = Some e"
  shows "fst (PublishMsg p ctx msg po w) = (None, Some e)
     \<and> error_recorded w e (snd (snd (PublishMsg p ctx msg po w)))"
proof -
  obtain c1 sp m w1 where b: "PublishMsg_begin p ctx msg w = (c1, sp, m, w1)"
    by (cases "PublishMsg_begin p ctx msg w") auto
  from PublishMsg_begin_fresh [OF b] obtain s where
    sp: "sp = length (w_spans w)" and s: "w_spans w1 = w_spans w @ [s]" "sp_events s = []" "sp_ended s = 0"
    by blast
  from assms b have d: "snd (js_PublishMsg (p_js p) c1 m po) = Some e"
    by (simp add: PublishMsg_delegate_def)
  show ?thesis
    using record_error_and_end_fresh [OF s, of e]
    by (simp add: PublishMsg_def b sp publish_finish_def d)
qed

lemma PublishAsync_error:
  assumes "asyncSpans (p_opts p)" "snd (PublishAsync_delegate p subject data po w) = Some e"
  shows "fst (PublishAsync p subject data po w) = (None, Some e)
     \<and> error_recorded w e (snd (PublishAsync p subject data po w))"
proof -
  obtain c1 sp m w1 where b: "Publish_begin p Background subject data w = (c1, sp, m, w1)"
    by (cases "Publish_begin p Background subject data w") auto
  from Publish_begin_fresh [OF b] obtain s where
    sp: "sp = length (w_spans w)" and s: "w_spans w1 = w_spans w @ [s]" "sp_events s = []" "sp_ended s = 0"
    by blast
  from assms b have d: "snd (js_PublishMsgAsync (p_js p) m po) = Some e"
    by (simp add: PublishAsync_delegate_def)
  show ?thesis
    using record_error_and_end_fresh [OF s, of e] assms(1)
    by (simp add: PublishAsync_def b sp async_finish_def d)
qed

lemma PublishAsyncMsg_error:
  assumes "asyncSpans (p_opts p)" "snd (PublishAsyncMsg_delegate p msg po w) = Some e"
  shows "fst (PublishAsyncMsg p msg po w) = (None, Some e)
     \<and> error_recorded w e (snd (snd (PublishAsyncMsg p msg po w)))"
proof -
  obtain c1 sp m w1 where b: "PublishMsg_begin p Background msg w = (c1, sp, m, w1)"
    by (cases "PublishMsg_begin p Background msg w") auto
  from PublishMsg_begin_fresh [OF b] obtain s where
    sp: "sp = length (w_spans w)" and s: "w_spans w1 = w_spans w @ [s]" "sp_events s = []" "sp_ended s = 0"
    by blast
  from assms b have d: "snd (js_PublishMsgAsync (p_js p) m po) = Some e"
    by (simp add: PublishAsyncMsg_delegate_def)
  show ?thesis
    using record_error_and_end_fresh [OF s, of e] assms(1)
    by (simp add: PublishAsyncMsg_def b sp async_finish_def d)
qed

lemma async_disabled_result:
  assumes "\<not> asyncSpans (p_opts p)"
  shows "PublishAsync p subject data po w = (PublishAsync_delegate p subject data po w, w)
     \<and> PublishAsyncMsg p msg po w = (PublishAsyncMsg_delegate p msg po w, msg, w)"
  using assms
  by (simp add: PublishAsync_def PublishAsyncMsg_def PublishAsync_delegate_def
      PublishAsyncMsg_delegate_def)

lemma fetch_finish_error:
  assumes "startFetchSpan tc w = (c1, sp, w1)" "snd r = Some e"
  shows "fst (fetch_finish tc c1 sp r w1) = (None, Some e)
     \<and> error_recorded w e (snd (fetch_finish tc c1 sp r w1))"
proof -
  from startFetchSpan_fresh [OF assms(1)] obtain s where
    sp: "sp = length (w_spans w)" and s: "w_spans w1 = w_spans w @ [s]" "sp_events s = []" "sp_ended s = 0"
    by blast
  show ?thesis
    using record_error_and_end_fresh [OF s, of e] assms(2)
    by (simp add: fetch_finish_def sp)
qed

lemma Next_error:
  assumes "snd (c_Next (tc_consumer tc) fo) = Some e"
  shows "fst (Next tc fo w) = (None, Some e) \<and> error_recorded w e (snd (Next tc fo w))"
proof -
  obtain c1 sp w1 where b: "startFetchSpan tc w = (c1, sp, w1)"
    by (cases "startFetchSpan tc w") auto
  from startFetchSpan_fresh [OF b] obtain s where
    sp: "sp = length (w_spans w)" and s: "w_spans w1 = w_spans w @ [s]" "sp_events s = []" "sp_ended s = 0"
    by blast
  obtain m er where r: "c_Next (tc_consumer tc) fo = (m, er)"
    by (cases "c_Next (tc_consumer tc) fo") auto
  show ?thesis
    using record_error_and_end_fresh [OF s, of e] assms
    by (simp add: Next_def b sp r)
qed

text \<open>
  C2 (as amended). When the delegated call of \<open>Publish\<close>, \<open>PublishMsg\<close>, \<open>Fetch\<close>,
  \<open>FetchBytes\<close>, \<open>FetchNoWait\<close> or \<open>Next\<close>, or of \<open>PublishAsync\<close> or
  \<open>PublishAsyncMsg\<close> on a publisher with async spans enabled, returns an error, the
  wrapper returns a nil result and that same error, and the span the call started holds
  the error as its event and the error status, and is ended once. On a publisher with
  async spans disabled, \<open>PublishAsync\<close> and \<open>PublishAsyncMsg\<close> return the client's
  answer as it is (so the error is the same) and touch no span.
\<close>

theorem delegate_error_returned_unchanged:
  "(snd (Publish_delegate p ctx subject data po w) = Some e \<longrightarrow>
      fst (Publish p ctx subject data po w) = (None, Some e)
      \<and> error_recorded w e (snd (Publish p ctx subject data po w)))
   \<and> (snd (PublishMsg_delegate p ctx msg po w) = Some e \<longrightarrow>
      fst (PublishMsg p ctx msg po w) = (None, Some e)
      \<and> error_recorded w e (snd (snd (PublishMsg p ctx msg po w))))
   \<and> (asyncSpans (p_opts p) \<and> snd (PublishAsync_delegate p subject data po w) = Some e \<longrightarrow>
      fst (PublishAsync p subject data po w) = (None, Some e)
      \<and> error_recorded w e (snd (PublishAsync p subject data po w)))
   \<and> (asyncSpans (p_opts p) \<and> snd (PublishAsyncMsg_delegate p msg po w) = Some e \<longrightarrow>
      fst (PublishAsyncMsg p msg po w) = (None, Some e)
      \<and> error_recorded w e (snd (snd (PublishAsyncMsg p msg po w))))
   \<and> (\<not> asyncSpans (p_opts q) \<longrightarrow>
      PublishAsync q subject data po w = (PublishAsync_delegate q subject data po w, w)
      \<and> PublishAsyncMsg q msg po w = (PublishAsyncMsg_delegate q msg po w, msg, w))
   \<and> (snd (c_Fetch (tc_consumer tc) n fo) = Some e \<longrightarrow>
      fst (Fetch tc n fo w) = (None, Some e) \<and> error_recorded w e (snd (Fetch tc n fo w)))
   \<and> (snd (c_FetchBytes (tc_consumer tc) n fo) = Some e \<longrightarrow>
      fst (FetchBytes tc n fo w) = (None, Some e)
      \<and> error_recorded w e (snd (FetchBytes tc n fo w)))
   \<and> (snd (c_FetchNoWait (tc_consumer tc) n) = Some e \<longrightarrow>
      fst (FetchNoWait tc n w) = (None, Some e)
      \<and> error_recorded w e (snd (FetchNoWait tc n w)))
   \<and> (snd (c_Next (tc_consumer tc) fo) = Some e \<longrightarrow>
      fst (Next tc fo w) = (None, Some e) \<and> error_recorded w e (snd (Next tc fo w)))"
proof -
  obtain c1 sp w1 where b: "startFetchSpan tc w = (c1, sp, w1)"
    by (cases "startFetchSpan tc w") auto
  have f: "snd (c_Fetch (tc_consumer tc) n fo) = Some e \<Longrightarrow>
      fst (Fetch tc n fo w) = (None, Some e) \<and> error_recorded w e (snd (Fetch tc n fo w))"
    using fetch_finish_error [OF b] by (simp add: Fetch_def b)
  have fb: "snd (c_FetchBytes (tc_consumer tc) n fo) = Some e \<Longrightarrow>
      fst (FetchBytes tc n fo w) = (None, Some e)
      \<and> error_recorded w e (snd (FetchBytes tc n fo w))"
    using fetch_finish_error [OF b] by (simp add: FetchBytes_def b)
  have fn: "snd (c_FetchNoWait (tc_consumer tc) n) = Some e \<Longrightarrow>
      fst (FetchNoWait tc n w) = (None, Some e)
      \<and> error_recorded w e (snd (FetchNoWait tc n w))"
    using fetch_finish_error [OF b] by (simp add: FetchNoWait_def b)
  show ?thesis
    using Publish_error [of p ctx subject data po w e] PublishMsg_error [of p ctx msg po w e]
      PublishAsync_error [of p subject data po w e] PublishAsyncMsg_error [of p msg po w e]
      async_disabled_result [of q subject data po w msg] f fb fn Next_error [of tc fo e w]
    by blast
qed

theorem delegate_error_returned_unchanged_witness:
  "fst (Publish ex_pub ex_ctx ''orders.created'' [116] [] ex_world) = (None, Some ''nats: timeout'')
   \<and> error_recorded ex_world ''nats: timeout''
        (snd (Publish ex_pub ex_ctx ''orders.created'' [116] [] ex_world))
   \<and> fst (PublishMsg ex_pub ex_ctx ex_nats_msg [] ex_world) = (None, Some ''nats: timeout'')
   \<and> fst (PublishAsync ex_pub ''orders.created'' [116] [] ex_world) = (None, Some ''nats: timeout'')
   \<and> fst (PublishAsyncMsg ex_pub ex_nats_msg [] ex_world) = (None, Some ''nats: timeout'')
   \<and> PublishAsync ex_pub_noasync ''orders.created'' [116] [] ex_world =
        ((None, Some ''nats: timeout''), ex_world)
   \<and> fst (Fetch ex_tc 10 [] ex_world) = (None, Some ''nats: timeout'')
   \<and> fst (FetchBytes ex_tc 10 [] ex_world) = (None, Some ''nats: timeout'')
   \<and> fst (FetchNoWait ex_tc 10 ex_world) = (None, Some ''nats: timeout'')
   \<and> fst (Next ex_tc [] ex_world) = (None, Some ''nats: timeout'')
   \<and> error_recorded ex_world ''nats: timeout'' (snd (Next ex_tc [] ex_world))"
  using delegate_error_returned_unchanged
    [of ex_pub ex_ctx "''orders.created''" "[116]" "[]" ex_world "''nats: timeout''"
        ex_nats_msg ex_pub_noasync ex_tc 10 "[]"]
  by (simp add: Publish_delegate_def PublishMsg_delegate_def PublishAsync_delegate_def
      PublishAsyncMsg_delegate_def split_def Let_def ex_pub_def ex_pub_noasync_def ex_tc_def
      failing_js_def failing_consumer_def defaultOptions_def)

text \<open>
  C2 as stated fails where the gate is closed: \<open>PublishAsync\<close> on a publisher with async
  spans disabled returns the client's error, and no span exists on which the error could
  have been recorded.
\<close>

theorem async_passthrough_records_nothing:
  "fst (PublishAsync ex_pub_noasync ''orders.created'' [116] [] ex_world) =
     (None, Some ''nats: timeout'')
   \<and> w_spans (snd (PublishAsync ex_pub_noasync ''orders.created'' [116] [] ex_world)) = []
   \<and> \<not> error_recorded ex_world ''nats: timeout''
         (snd (PublishAsync ex_pub_noasync ''orders.created'' [116] [] ex_world))"
  by (simp add: PublishAsync_def ex_pub_noasync_def failing_js_def defaultOptions_def
      ex_world_def error_recorded_def)

subsection \<open>Callback handler wrapper\<close>







lemma ex_process_begin:
  "process_begin (provider_Tracer 0 ''otx/nats'') TraceContext defaultOptions ex_js_msg ex_world =
     (\<lparr>tm_Msg = Some ex_js_msg,
       tm_ctx = Some \<lparr>ctx_span = Some \<lparr>TraceID = ''0af7651916cd43dd8448eb211c80319c'',
                                        SpanID = ''00f067aa0ba902b7'', Remote = False\<rparr>,
                      ctx_values = []\<rparr>\<rparr>,
      0,
      ex_world\<lparr>w_spans :=
        [\<lparr>sp_name = ''process ORDERS'', sp_kind = SpanKindConsumer, sp_scope = ''otx/nats'',
          sp_context = \<lparr>TraceID = ''0af7651916cd43dd8448eb211c80319c'',
                        SpanID = ''00f067aa0ba902b7'', Remote = False\<rparr>,
          sp_parent = Some \<lparr>TraceID = ''0af7651916cd43dd8448eb211c80319c'',
                             SpanID = ''b7ad6b7169203331'', Remote = True\<rparr>,
          sp_attrs = processAttributes ''ORDERS'' ''test-consumer'' ''orders.created'' '''' 4,
          sp_events = [], sp_status = (StatusUnset, ''''), sp_ended = 0\<rparr>]\<rparr>)"
  by (simp add: process_begin_def Let_def ex_js_msg_def ex_world_def Extract_def TraceContext_def
      headerCarrier_def headerCarrier_Get_def Header_Values_def Background_def sc_IsValid_def
      tracer_Start_def provider_Tracer_def defaultOptions_def ex_newids_def opTypeProcess_def)


lemma process_begin_ignores_processSpans:
  "process_begin tr pr (os\<lparr>processSpans := b\<rparr>) msg w = process_begin tr pr os msg w"
  by (simp add: process_begin_def Let_def cong: if_cong)

text \<open>
  C8. The handler wrapped with \<open>WithProcessSpans(false)\<close>, run on one message in a world
  without spans, leaves one span there: the consumer-kind span \<open>process ORDERS\<close>. The
  closure never reads the toggle, so the process span is started whatever its value is.
\<close>

theorem process_spans_toggle_ignored:
  "MessageHandlerWithTracing ex_globals (Some returning_handler) [WithProcessSpans False] =
     Returns (traced_handler returning_handler (provider_Tracer 0 ''otx/nats'') TraceContext
                (defaultOptions\<lparr>processSpans := False\<rparr>))
   \<and> processSpans (applyOptions [WithProcessSpans False]) = False
   \<and> map sp_name (w_spans (snd (traced_handler returning_handler
         (provider_Tracer 0 ''otx/nats'') TraceContext (defaultOptions\<lparr>processSpans := False\<rparr>)
         ex_js_msg ex_world))) = [''process ORDERS'']
   \<and> map sp_kind (w_spans (snd (traced_handler returning_handler
         (provider_Tracer 0 ''otx/nats'') TraceContext (defaultOptions\<lparr>processSpans := False\<rparr>)
         ex_js_msg ex_world))) = [SpanKindConsumer]"
proof -
  have mk: "MessageHandlerWithTracing ex_globals (Some returning_handler) [WithProcessSpans False] =
     Returns (traced_handler returning_handler (provider_Tracer 0 ''otx/nats'') TraceContext
                (defaultOptions\<lparr>processSpans := False\<rparr>))"
    by (simp add: MessageHandlerWithTracing_def MessageHandlerWithTracingProviders_def
        applyOptions_def WithProcessSpans_def getTracer_def getPropagator_def ex_globals_def
        defaultOptions_def instrumentationName_def)
  have off: "processSpans (applyOptions [WithProcessSpans False]) = False"
    by (simp add: applyOptions_def WithProcessSpans_def)
  have run: "snd (traced_handler returning_handler (provider_Tracer 0 ''otx/nats'') TraceContext
         (defaultOptions\<lparr>processSpans := False\<rparr>) ex_js_msg ex_world) =
       span_End 0 (snd (snd (process_begin (provider_Tracer 0 ''otx/nats'') TraceContext
         defaultOptions ex_js_msg ex_world)))"
    by (simp add: traced_handler_def process_begin_ignores_processSpans ex_process_begin
        returning_handler_def process_deferred_def)
  show ?thesis
    by (simp add: mk off run ex_process_begin span_ops span_update_def)
qed

subsection \<open>Continuous iterator\<close>

lemma ex_Messages: "Messages ex_tc [] ex_world = ((Some ex_iterator, None), ex_world)"
  by (simp add: Messages_def ex_iterator_def)
     (simp add: ex_tc_def failing_consumer_def)

lemma ex_extractContext: "extractContext ex_tc Background (Some ex_js_msg) = ex_remote_ctx"
  by (simp add: extractContext_def ex_js_msg_def ex_tc_def Extract_def TraceContext_def
      headerCarrier_def headerCarrier_Get_def Header_Values_def Background_def sc_IsValid_def
      ex_remote_ctx_def ex_span_context_def)

lemma ex_iterator_Next:
  "TracedMessagesContext_Next ex_iterator ex_world =
     Returns ((Some \<lparr>tm_Msg = Some ex_js_msg, tm_ctx = Some ex_remote_ctx\<rparr>, None),
              ex_iterator\<lparr>mctx_messagesCtx := Some (ex_messages_context\<lparr>mc_pending := []\<rparr>)\<rparr>,
              ex_world)"
  by (simp add: TracedMessagesContext_Next_def ex_iterator_def mc_Next_def
      ex_messages_context_def ex_extractContext)

text \<open>
  C7 as stated fails: on the iterator that \<open>Messages()\<close> returns, a successful \<open>Next()\<close>
  hands back the message with its extracted context and the world as it was, here still
  without any span.
\<close>

theorem iterator_next_opens_no_span:
  "Messages ex_tc [] ex_world = ((Some ex_iterator, None), ex_world)
   \<and> TracedMessagesContext_Next ex_iterator ex_world =
       Returns ((Some \<lparr>tm_Msg = Some ex_js_msg, tm_ctx = Some ex_remote_ctx\<rparr>, None),
                ex_iterator\<lparr>mctx_messagesCtx := Some (ex_messages_context\<lparr>mc_pending := []\<rparr>)\<rparr>,
                ex_world)
   \<and> w_spans ex_world = []"
  using ex_Messages ex_iterator_Next by (simp add: ex_world_def)

text \<open>
  C7 (as amended). \<open>Messages()\<close> leaves the world as it was, so it opens no span. On the
  iterator it returns, at any later point of the iteration, a successful \<open>Next()\<close> leaves
  the world as it was too: it opens no span. It takes the first pending answer of the
  native source and wraps that message with the context extracted from the message's own
  headers on \<open>context.Background()\<close>.
\<close>

theorem messages_iterator_extracts_only:
  assumes m: "fst (Messages tc opts w0) = (Some c0, None)"
      and inv: "mctx_ctx c = mctx_ctx c0" "mctx_extractCtx c = mctx_extractCtx c0"
      and nx: "TracedMessagesContext_Next c w = Returns ((Some tm, None), c', w')"
  shows "snd (Messages tc opts w0) = w0 \<and> w' = w
     \<and> tm_ctx tm = Some (extractContext tc Background (tm_Msg tm))
     \<and> mctx_ctx c' = mctx_ctx c0 \<and> mctx_extractCtx c' = mctx_extractCtx c0
     \<and> (\<exists>mc rest. mctx_messagesCtx c = Some mc \<and> mc_pending mc = (tm_Msg tm, None) # rest
           \<and> mctx_messagesCtx c' = Some (mc\<lparr>mc_pending := rest\<rparr>))"
proof -
  have w0: "snd (Messages tc opts w0) = w0"
    by (simp add: Messages_def split_def Let_def split: option.splits)
  from m have c0: "mctx_ctx c0 = Background \<and> mctx_extractCtx c0 = extractContext tc"
    by (auto simp: Messages_def split_def Let_def split: option.splits)
  from nx obtain mc where mc: "mctx_messagesCtx c = Some mc"
    by (cases "mctx_messagesCtx c") (simp_all add: TracedMessagesContext_Next_def)
  from nx mc obtain r rest where p: "mc_pending mc = r # rest"
    by (cases "mc_pending mc") (simp_all add: TracedMessagesContext_Next_def mc_Next_def)
  obtain msg er where r: "r = (msg, er)" by (cases r) auto
  from nx mc p r have er: "er = None"
    by (cases er) (simp_all add: TracedMessagesContext_Next_def mc_Next_def)
  from nx mc p r er have res:
    "tm = \<lparr>tm_Msg = msg, tm_ctx = Some (mctx_extractCtx c (mctx_ctx c) msg)\<rparr>"
    "c' = c\<lparr>mctx_messagesCtx := Some (mc\<lparr>mc_pending := rest\<rparr>)\<rparr>" "w' = w"
    by (simp_all add: TracedMessagesContext_Next_def mc_Next_def)
  show ?thesis
    using w0 c0 inv mc p r er res by simp
qed

theorem messages_iterator_extracts_only_witness:
  "fst (Messages ex_tc [] ex_world) = (Some ex_iterator, None)
   \<and> snd (Messages ex_tc [] ex_world) = ex_world
   \<and> tm_ctx \<lparr>tm_Msg = Some ex_js_msg, tm_ctx = Some ex_remote_ctx\<rparr> =
       Some (extractContext ex_tc Background (Some ex_js_msg))"
proof -
  have m: "fst (Messages ex_tc [] ex_world) = (Some ex_iterator, None)"
    using ex_Messages by simp
  show ?thesis
    using messages_iterator_extracts_only [OF m refl refl ex_iterator_Next] m by simp
qed

subsection \<open>Header round trip\<close>

lemma headerCarrier_Get_Set:
  "headerCarrier_Get (headerCarrier_Set h k v) k' = (if k' = k then v else headerCarrier_Get h k')"
  by (simp add: headerCarrier_Get_def headerCarrier_Set_def Header_Set_def Header_Values_def)

lemma carrier_sets_Get:
  "headerCarrier_Get (carrier_sets kvs h) k =
     (case map_of (rev kvs) k of Some v \<Rightarrow> v | None \<Rightarrow> headerCarrier_Get h k)"
proof (induction kvs arbitrary: h)
  case Nil
  then show ?case by simp
next
  case (Cons kv kvs)
  obtain k' v' where kv: "kv = (k', v')" by (cases kv) auto
  show ?case
    by (simp add: kv Cons.IH headerCarrier_Get_Set map_add_def split: option.splits)
qed

text \<open>
  C4. Take the process-wide propagator to be faithful on the context \<open>ctx\<close>: from any
  carrier whose \<open>Get\<close> returns, for each key the propagator sets when injecting
  \<open>ctx\<close>, the value it set last, it extracts a context with the trace id and the span id
  of \<open>ctx\<close> (the W3C propagator is, on every context with a valid span). Then injecting
  \<open>ctx\<close> into a NATS message, whatever header entries the message holds already and also
  when its header is nil, and extracting from the resulting header yields a context with
  the trace id and the span id of \<open>ctx\<close>. The same holds for the variants that take the
  propagator as an argument.
\<close>

theorem header_roundtrip:
  assumes law: "\<And>c c0. (\<And>k v. map_of (rev (prop_Inject (g_TextMapPropagator g) ctx)) k = Some v
                              \<Longrightarrow> car_Get c k = v)
                  \<Longrightarrow> trace_identity (prop_Extract (g_TextMapPropagator g) c0 c) = trace_identity ctx"
  shows "trace_identity (ExtractNATS g c0 (Header (fst (InjectNATS g ctx msg w)))) = trace_identity ctx
     \<and> trace_identity
          (ExtractNATSWithPropagator c0
             (Header (fst (InjectNATSWithPropagator ctx msg (g_TextMapPropagator g) w)))
             (g_TextMapPropagator g)) = trace_identity ctx"
proof -
  let ?p = "g_TextMapPropagator g"
  let ?h0 = "case Header msg of None \<Rightarrow> Map.empty | Some h \<Rightarrow> h"
  let ?h = "carrier_sets (prop_Inject ?p ctx) ?h0"
  have i1: "Header (fst (InjectNATS g ctx msg w)) = Some ?h"
    by (simp add: InjectNATS_def Inject_def Let_def)
  have i2: "Header (fst (InjectNATSWithPropagator ctx msg ?p w)) = Some ?h"
    by (simp add: InjectNATSWithPropagator_def Inject_def Let_def)
  have "trace_identity (prop_Extract ?p c0 (headerCarrier ?h)) = trace_identity ctx"
  proof (rule law)
    fix k v
    assume "map_of (rev (prop_Inject ?p ctx)) k = Some v"
    then show "car_Get (headerCarrier ?h) k = v"
      by (simp add: headerCarrier_def carrier_sets_Get)
  qed
  then show ?thesis
    by (simp add: i1 i2 ExtractNATS_def ExtractNATSWithPropagator_def Extract_def)
qed

lemma TraceContext_law:
  assumes "ctx_span ctx = Some sc" "sc_IsValid sc"
      and "\<And>k v. map_of (rev (prop_Inject TraceContext ctx)) k = Some v \<Longrightarrow> car_Get c k = v"
  shows "trace_identity (prop_Extract TraceContext c0 c) = trace_identity ctx"
proof -
  let ?tp = "''00-'' @ TraceID sc @ ''-'' @ SpanID sc @ ''-01''"
  from assms(1,2) have inj: "prop_Inject TraceContext ctx = [(''traceparent'', ?tp)]"
    by (simp add: TraceContext_def)
  have g: "car_Get c ''traceparent'' = ?tp"
    by (rule assms(3)) (simp add: inj)
  from assms(2) have l: "length (TraceID sc) = 32" "length (SpanID sc) = 16"
    by (simp_all add: sc_IsValid_def)
  have len: "length ?tp = 55" using l by simp
  have t3: "take 3 ?tp = ''00-''" by simp
  have d35: "?tp ! 35 = CHR ''-''" using l by (simp add: nth_append nth_Cons')
  have d52: "?tp ! 52 = CHR ''-''" using l by (simp add: nth_append nth_Cons')
  have tid: "take 32 (drop 3 ?tp) = TraceID sc" using l by simp
  have sid: "take 16 (drop 36 ?tp) = SpanID sc" using l by simp
  have v: "sc_IsValid \<lparr>TraceID = TraceID sc, SpanID = SpanID sc, Remote = True\<rparr>"
    using assms(2) by (simp add: sc_IsValid_def)
  have "prop_Extract TraceContext c0 c =
          c0\<lparr>ctx_span := Some \<lparr>TraceID = TraceID sc, SpanID = SpanID sc, Remote = True\<rparr>\<rparr>"
    unfolding TraceContext_def propagator.simps Let_def g
    using len t3 d35 d52 tid sid v by simp
  then show ?thesis
    by (simp add: trace_identity_def assms(1))
qed

theorem header_roundtrip_witness:
  "trace_identity (ExtractNATS ex_globals Background
      (Header (fst (InjectNATS ex_globals ex_ctx ex_nats_msg ex_world)))) =
     Some (''0af7651916cd43dd8448eb211c80319c'', ''b7ad6b7169203331'')"
proof -
  have p: "g_TextMapPropagator ex_globals = TraceContext"
    by (simp add: ex_globals_def)
  have s: "ctx_span ex_ctx = Some ex_span_context"
    by (simp add: ex_ctx_def)
  have v: "sc_IsValid ex_span_context"
    by (simp add: sc_IsValid_def ex_span_context_def)
  have t: "trace_identity ex_ctx = Some (''0af7651916cd43dd8448eb211c80319c'', ''b7ad6b7169203331'')"
    by (simp add: trace_identity_def ex_ctx_def ex_span_context_def)
  show ?thesis
    using header_roundtrip [of ex_globals ex_ctx Background ex_nats_msg ex_world]
      TraceContext_law [OF s v] t
    by (simp add: p)
qed

end
